theory Spec2Isabelle
  imports Main "HOL-Library.Word"
begin

unbundle bit_operations_syntax

section \<open>The mbox synchronisation engine: data model\<close>

text \<open>
  A shallow embedding of the mbox sync engine (\<^verbatim>\<open>mbox-sync.c\<close>). Machine integers keep
  their width: \<^verbatim>\<open>uint32_t\<close> is a 32-bit word, \<^verbatim>\<open>uoff_t\<close> and \<^verbatim>\<open>off_t\<close> are
  64-bit words (an \<^verbatim>\<open>off_t\<close> is read as signed wherever the code compares it). A function
  of the source that returns \<^verbatim>\<open>int\<close> returns an \<open>int\<close> here, together with the updated
  context. A result is wrapped in \<open>option\<close> where the call may not return: \<open>None\<close> stands
  for a failed \<^verbatim>\<open>i_assert\<close> (which aborts the process) or for a loop that never ends.
\<close>

type_synonym uint8 = "8 word"
type_synonym uint32 = "32 word"
type_synonym uint64 = "64 word"
type_synonym uoff_t = "64 word"
type_synonym off_t = "64 word"
type_synonym time_t = "64 word"

text \<open>
  The type of a sync record. A record cleared with \<^verbatim>\<open>memset(sync_rec, 0, ...)\<close> has none
  of the enumerated types; \<open>MAIL_INDEX_SYNC_TYPE_ZERO\<close> stands for that cleared value.
\<close>

datatype mail_index_sync_type =
    MAIL_INDEX_SYNC_TYPE_ZERO
  | MAIL_INDEX_SYNC_TYPE_APPEND
  | MAIL_INDEX_SYNC_TYPE_EXPUNGE
  | MAIL_INDEX_SYNC_TYPE_FLAGS
  | MAIL_INDEX_SYNC_TYPE_KEYWORD_ADD
  | MAIL_INDEX_SYNC_TYPE_KEYWORD_REMOVE
  | MAIL_INDEX_SYNC_TYPE_KEYWORD_RESET

text \<open>
  \<^verbatim>\<open>struct mail_index_sync_rec\<close>: the engine reads \<open>uid1\<close>, \<open>uid2\<close> and \<open>type\<close>; the
  fields that only the index library interprets (flag and keyword payload) are \<open>sync_data\<close>.
\<close>

record mail_index_sync_rec =
  uid1 :: uint32
  uid2 :: uint32
  type :: mail_index_sync_type
  sync_data :: nat

definition zero_sync_rec :: mail_index_sync_rec where
  "zero_sync_rec = \<lparr>uid1 = 0, uid2 = 0, type = MAIL_INDEX_SYNC_TYPE_ZERO, sync_data = 0\<rparr>"

text \<open>What \<^verbatim>\<open>mail_index_sync_next\<close> hands out: a record, or a failure of the index.\<close>

datatype sync_next_item = Sync_next_rec mail_index_sync_rec | Sync_next_error

text \<open>\<^verbatim>\<open>struct mail_index_record\<close> (the fields the engine reads).\<close>

record mail_index_record =
  rec_uid :: uint32
  rec_flags :: uint8

text \<open>
  \<^verbatim>\<open>struct mbox_sync_mail\<close>. \<^verbatim>\<open>keywords\<close> is \<open>mail_keywords\<close>, which is \<open>None\<close>
  while the array is not created.
  \<open>space\<close> is an \<^verbatim>\<open>off_t\<close>. The field \<^verbatim>\<open>idx_seq\<close> is \<open>mail_idx_seq\<close> here, the
  context having a field of the same name.
\<close>

record mbox_sync_mail =
  uid :: uint32
  mail_idx_seq :: uint32
  mail_keywords :: "uint32 list option"
  flags :: uint8
  uid_broken :: bool
  from_offset :: uoff_t
  body_size :: uoff_t
  offset :: uoff_t
  space :: off_t

definition zero_mail :: mbox_sync_mail where
  "zero_mail = \<lparr>uid = 0, mail_idx_seq = 0, mail_keywords = None, flags = 0, uid_broken = False,
     from_offset = 0, body_size = 0, offset = 0, space = 0\<rparr>"

text \<open>
  \<^verbatim>\<open>struct mbox_sync_mail_context\<close>. \<^verbatim>\<open>seq\<close> is \<open>mail_seq\<close> here. The header buffer
  \<^verbatim>\<open>mail_ctx->header\<close> is the context's buffer (the same object), so it lives in the
  context only. \<open>parse_data\<close> holds what only the header parser and rewriter interpret.
\<close>

record mbox_sync_mail_context =
  mail :: mbox_sync_mail
  mail_seq :: uint32
  hdr_offset :: uoff_t
  body_offset :: uoff_t
  hdr_md5_sum :: "uint8 list"
  content_length :: uoff_t
  have_eoh :: bool
  need_rewrite :: bool
  pseudo :: bool
  updated :: bool
  recent :: bool
  dirty :: bool
  parse_data :: nat

definition zero_mail_ctx :: mbox_sync_mail_context where
  "zero_mail_ctx = \<lparr>mail = zero_mail, mail_seq = 0, hdr_offset = 0, body_offset = 0,
     hdr_md5_sum = replicate 16 0, content_length = 0, have_eoh = False, need_rewrite = False,
     pseudo = False, updated = False, recent = False, dirty = False, parse_data = 0\<rparr>"

text \<open>\<^verbatim>\<open>struct mail_index_header\<close> (the fields the engine reads).\<close>

record mail_index_header =
  hdr_uid_validity :: uint32
  hdr_next_uid :: uint32
  hdr_sync_stamp :: uint32
  hdr_sync_size :: uint64

datatype lock_type = F_UNLCK | F_RDLCK | F_WRLCK

text \<open>\<^verbatim>\<open>enum mbox_sync_flags\<close>, a bit mask in the source: a set of flags here.\<close>

datatype mbox_sync_flag =
    MBOX_SYNC_LAST_COMMIT
  | MBOX_SYNC_HEADER
  | MBOX_SYNC_LOCK_READING
  | MBOX_SYNC_UNDIRTY
  | MBOX_SYNC_REWRITE
  | MBOX_SYNC_FORCE_SYNC

text \<open>\<^verbatim>\<open>struct mbox_mailbox\<close> (the fields the engine reads or writes).\<close>

record mbox_mailbox =
  mbox_readonly :: bool
  mbox_sync_dirty :: bool
  mbox_save_md5 :: bool
  mbox_do_dirty_syncs :: bool
  mbox_dirty_stamp :: time_t
  mbox_dirty_size :: off_t
  mbox_lock_type :: lock_type
  mbox_fd :: int
  mbox_file_stream_open :: bool
  keep_recent :: bool
  sync_last_check :: time_t
  commit_log_file_seq :: uint32
  commit_log_file_offset :: uoff_t

text \<open>Operations recorded on the open index transaction.\<close>

datatype index_op =
    Index_expunge uint32
  | Index_append uint32
  | Index_update_flags uint32 nat uint8
  | Index_update_flags_range uint32 uint32 nat uint8
  | Index_update_keywords uint32 "uint32 list option"
  | Index_update_ext_mbox uint32 uint64
  | Index_update_ext_md5 uint32 "uint8 list"
  | Index_update_header_uid_validity uint32
  | Index_update_header_next_uid uint32
  | Index_update_header_sync_stamp uint32
  | Index_update_header_sync_size uint64
  | Index_set_recent uint32

definition MODIFY_ADD :: nat where "MODIFY_ADD = 0"
definition MODIFY_REMOVE :: nat where "MODIFY_REMOVE = 1"
definition MODIFY_REPLACE :: nat where "MODIFY_REPLACE = 2"

text \<open>
  What the engine does to the outside, in order: the errors it reports, every call that
  writes to the mbox file, and the lock and index-sync calls of the driver.
\<close>

datatype event =
    Critical string
  | Syscall_error string
  | Index_error
  | Storage_error string
  | Mark_corrupted
  | Pwrite int uoff_t "uint8 list"
  | Ftruncate int uoff_t
  | File_set_size int uoff_t
  | Try_rewrite uint32 off_t
  | Rewrite uoff_t off_t uoff_t uint32 uint32
  | Mbox_move uoff_t uoff_t uoff_t
  | Utime
  | Lock lock_type nat
  | Unlock nat
  | Sync_begin
  | Sync_commit
  | Sync_rollback
  | Transaction_begin
  | Transaction_commit
  | Transaction_rollback

fun is_write :: "event \<Rightarrow> bool" where
  "is_write (Pwrite _ _ _) = True"
| "is_write (Ftruncate _ _) = True"
| "is_write (File_set_size _ _) = True"
| "is_write (Try_rewrite _ _) = True"
| "is_write (Rewrite _ _ _ _ _) = True"
| "is_write (Mbox_move _ _ _) = True"
| "is_write _ = False"

fun is_critical :: "event \<Rightarrow> bool" where
  "is_critical (Critical _) = True"
| "is_critical _ = False"

text \<open>
  \<^verbatim>\<open>struct mbox_sync_context\<close>. The transaction \<^verbatim>\<open>t\<close> is \<open>trans\<close>: \<open>None\<close> when the
  pointer is NULL, else the operations issued on it so far. \<open>index_sync_ctx\<close> is \<open>None\<close>
  when the pointer is NULL, else the sync records \<^verbatim>\<open>mail_index_sync_next\<close> has still to
  hand out; \<open>index_sync_all\<close> is the whole stream, which \<^verbatim>\<open>mail_index_sync_reset\<close>
  rewinds to. \<open>world\<close> is everything outside the engine (the file, the two input streams,
  the index view, the clock); only the collaborators below read or change it.
\<close>

record 'w mbox_sync_context =
  mbox :: mbox_mailbox
  sync_flags :: "mbox_sync_flag set"
  write_fd :: int
  index_sync_ctx :: "sync_next_item list option"
  index_sync_all :: "sync_next_item list"
  trans :: "index_op list option"
  hdr :: mail_index_header
  header :: "uint8 list"
  from_line :: "uint8 list"
  base_uid_validity :: uint32
  base_uid_last :: uint32
  base_uid_last_offset :: uoff_t
  prev_msg_uid :: uint32
  next_uid :: uint32
  idx_next_uid :: uint32
  seq :: uint32
  idx_seq :: uint32
  need_space_seq :: uint32
  expunged_space :: off_t
  space_diff :: off_t
  mails :: "mbox_sync_mail list"
  syncs :: "mail_index_sync_rec list"
  sync_rec :: mail_index_sync_rec
  orig_size :: off_t
  orig_mtime :: time_t
  dest_first_mail :: bool
  first_mail_crlf_expunged :: bool
  moved_offsets :: bool
  renumber_uids :: bool
  delay_writes :: bool
  world :: 'w
  trace :: "event list"

record stat =
  st_size :: off_t
  st_mtime :: time_t

datatype errno = ENOSPC | EDQUOT | EIO

text \<open>The macro \<^verbatim>\<open>ENOSPACE(errno)\<close>: out of disk space or over quota.\<close>

definition ENOSPACE :: "errno \<Rightarrow> bool" where
  "ENOSPACE e = (e = ENOSPC \<or> e = EDQUOT)"


subsection \<open>The collaborators\<close>

text \<open>
  The code of the collaborators is outside the source: the raw mbox stream
  (\<^verbatim>\<open>istream-raw-mbox\<close>), the header parser and rewriter, the file stream and descriptor
  calls, the index view and the lock calls. The engine is modelled for any behaviour of
  theirs: each one is a field of \<open>ext\<close>, a function of the world (and of the context, for
  the parser and the rewriter, which are handed the context). The constants that the
  missing headers define are fields as well.
\<close>

record 'w ext =
  MBOX_HEADER_PADDING :: uint32
  MAIL_RECENT :: uint8
  MAIL_FLAGS_MASK :: uint8
  MAIL_INDEX_MAIL_FLAG_DIRTY :: uint8
  MBOX_EXPUNGED :: uint8
  istream_raw_mbox_seek :: "'w \<Rightarrow> uoff_t \<Rightarrow> int \<times> 'w"
  istream_raw_mbox_get_header_offset :: "'w \<Rightarrow> uoff_t \<times> 'w"
  istream_raw_mbox_get_body_offset :: "'w \<Rightarrow> uoff_t \<times> 'w"
  istream_raw_mbox_get_start_offset :: "'w \<Rightarrow> uoff_t \<times> 'w"
  istream_raw_mbox_get_body_size :: "'w \<Rightarrow> uoff_t \<Rightarrow> uoff_t \<times> 'w"
  istream_raw_mbox_next :: "'w \<Rightarrow> uoff_t \<Rightarrow> 'w"
  istream_raw_mbox_is_eof :: "'w \<Rightarrow> bool"
  istream_raw_mbox_has_crlf_ending :: "'w \<Rightarrow> bool"
  input_v_offset :: "'w \<Rightarrow> uoff_t"
  input_eof :: "'w \<Rightarrow> bool"
  input_sync :: "'w \<Rightarrow> 'w"
  mbox_sync_parse_next_mail ::
    "'w mbox_sync_context \<Rightarrow> mbox_sync_mail_context \<Rightarrow>
     'w mbox_sync_context \<times> mbox_sync_mail_context"
  file_input_seek :: "'w \<Rightarrow> uoff_t \<Rightarrow> 'w"
  file_input_get_data :: "'w \<Rightarrow> uint8 list"
  file_input_skip :: "'w \<Rightarrow> nat \<Rightarrow> 'w"
  file_input_read :: "'w \<Rightarrow> int \<times> 'w"
  file_input_sync :: "'w \<Rightarrow> 'w"
  file_input_stat :: "'w \<Rightarrow> bool \<Rightarrow> stat option \<times> 'w"
  file_input_v_offset :: "'w \<Rightarrow> uoff_t"
  pread_full :: "'w \<Rightarrow> int \<Rightarrow> nat \<Rightarrow> uoff_t \<Rightarrow> int \<times> uint8 list \<times> 'w"
  pwrite_full :: "'w \<Rightarrow> int \<Rightarrow> uint8 list \<Rightarrow> uoff_t \<Rightarrow> int \<times> errno \<times> 'w"
  ftruncate :: "'w \<Rightarrow> int \<Rightarrow> uoff_t \<Rightarrow> int \<times> 'w"
  file_set_size :: "'w \<Rightarrow> int \<Rightarrow> uoff_t \<Rightarrow> int \<times> 'w"
  stat_path :: "'w \<Rightarrow> stat option"
  utime :: "'w \<Rightarrow> int \<times> 'w"
  usleep :: "'w \<Rightarrow> nat \<Rightarrow> 'w"
  ioloop_time :: "'w \<Rightarrow> time_t"
  getenv_MBOX_LAZY_WRITES :: "'w \<Rightarrow> bool"
  pseudo_from_line :: "'w \<Rightarrow> string"
  pseudo_date :: "'w \<Rightarrow> string"
  pseudo_time :: "'w \<Rightarrow> string"
  my_hostname :: "'w \<Rightarrow> string"
  mbox_sync_update_header ::
    "'w mbox_sync_context \<Rightarrow> mbox_sync_mail_context \<Rightarrow>
     'w mbox_sync_context \<times> mbox_sync_mail_context"
  mbox_sync_try_rewrite ::
    "'w mbox_sync_context \<Rightarrow> mbox_sync_mail_context \<Rightarrow> off_t \<Rightarrow>
     int \<times> 'w mbox_sync_context \<times> mbox_sync_mail_context"
  mbox_sync_rewrite ::
    "'w mbox_sync_context \<Rightarrow> mbox_sync_mail_context option \<Rightarrow> uoff_t \<Rightarrow> off_t \<Rightarrow> uoff_t \<Rightarrow>
     uint32 \<Rightarrow> uint32 \<Rightarrow> int \<times> 'w mbox_sync_context \<times> mbox_sync_mail_context option"
  mbox_move :: "'w mbox_sync_context \<Rightarrow> uoff_t \<Rightarrow> uoff_t \<Rightarrow> uoff_t \<Rightarrow> int \<times> 'w mbox_sync_context"
  mbox_file_seek :: "'w \<Rightarrow> uint32 \<Rightarrow> int \<times> 'w"
  mail_index_view_get_messages_count :: "'w \<Rightarrow> uint32"
  mail_index_lookup :: "'w \<Rightarrow> uint32 \<Rightarrow> int \<times> mail_index_record option"
  mail_index_lookup_uid :: "'w \<Rightarrow> uint32 \<Rightarrow> int \<times> uint32"
  mail_index_lookup_uid_range :: "'w \<Rightarrow> uint32 \<Rightarrow> uint32 \<Rightarrow> int \<times> uint32 \<times> uint32"
  mail_index_lookup_ext_mbox :: "'w \<Rightarrow> uint32 \<Rightarrow> int \<times> uint64 option"
  mail_index_lookup_ext_md5 :: "'w \<Rightarrow> uint32 \<Rightarrow> int \<times> uint8 list option"
  mail_index_lookup_keywords :: "'w \<Rightarrow> uint32 \<Rightarrow> int \<times> uint32 list"
  mail_index_append :: "index_op list \<Rightarrow> uint32 \<Rightarrow> uint32"
  mail_index_sync_flags_apply :: "mail_index_sync_rec \<Rightarrow> uint8 \<Rightarrow> uint8"
  mail_index_sync_keywords_apply :: "mail_index_sync_rec \<Rightarrow> uint32 list \<Rightarrow> bool \<times> uint32 list"
  index_keyword_array_cmp :: "uint32 list option \<Rightarrow> uint32 list option \<Rightarrow> bool"
  mail_index_get_header :: "'w \<Rightarrow> mail_index_header"
  mail_index_sync_begin :: "'w \<Rightarrow> int \<times> sync_next_item list \<times> 'w"
  mail_index_sync_commit :: "'w \<Rightarrow> int \<times> 'w"
  mail_index_transaction_commit :: "'w \<Rightarrow> index_op list \<Rightarrow> int \<times> 'w"
  mbox_lock :: "'w \<Rightarrow> mbox_mailbox \<Rightarrow> lock_type \<Rightarrow> int \<times> nat \<times> mbox_mailbox \<times> 'w"
  mbox_unlock :: "'w \<Rightarrow> mbox_mailbox \<Rightarrow> nat \<Rightarrow> int \<times> mbox_mailbox \<times> 'w"
  mbox_file_close_stream :: "'w \<Rightarrow> mbox_mailbox \<Rightarrow> mbox_mailbox \<times> 'w"
  mbox_file_open_stream :: "'w \<Rightarrow> mbox_mailbox \<Rightarrow> int \<times> mbox_mailbox \<times> 'w"

subsection \<open>Small helpers of the model\<close>

definition log_event :: "event \<Rightarrow> 'w mbox_sync_context \<Rightarrow> 'w mbox_sync_context" where
  "log_event e ctx = ctx\<lparr>trace := trace ctx @ [e]\<rparr>"

text \<open>
  A collaborator that is handed the context may change any field of it; the trace is the
  model's own record of what happened and stays as it was.
\<close>

definition keep_trace :: "'w mbox_sync_context \<Rightarrow> 'w mbox_sync_context \<Rightarrow> 'w mbox_sync_context" where
  "keep_trace ctx ctx' = ctx'\<lparr>trace := trace ctx\<rparr>"

text \<open>An operation on the open transaction (the engine issues them only while it is open).\<close>

definition index_do :: "index_op \<Rightarrow> 'w mbox_sync_context \<Rightarrow> 'w mbox_sync_context" where
  "index_do op ctx = ctx\<lparr>trans := map_option (\<lambda>ops. ops @ [op]) (trans ctx)\<rparr>"

definition OFF_T_MAX :: uoff_t where
  "OFF_T_MAX = 0x7FFFFFFFFFFFFFFF"

text \<open>\<^verbatim>\<open>%u\<close> and \<^verbatim>\<open>%010u\<close> of \<^verbatim>\<open>printf\<close>, as bytes.\<close>

definition digit_char :: "nat \<Rightarrow> uint8" where
  "digit_char d = of_nat (48 + d mod 10)"

definition printf_010u :: "uint32 \<Rightarrow> uint8 list" where
  "printf_010u v = map (\<lambda>i. digit_char (unat v div 10 ^ (9 - i))) [0..<10]"

fun dec_digits :: "nat \<Rightarrow> nat \<Rightarrow> uint8 list" where
  "dec_digits 0 n = []"
| "dec_digits (Suc k) n = (if n < 10 then [digit_char n] else dec_digits k (n div 10) @ [digit_char n])"

definition printf_u :: "uint32 \<Rightarrow> uint8 list" where
  "printf_u v = dec_digits 10 (unat v)"

definition bytes_of :: "string \<Rightarrow> uint8 list" where
  "bytes_of s = map (\<lambda>c. of_nat (of_char c)) s"


section \<open>The engine\<close>

subsection \<open>Reading the next message and the pending sync records\<close>

definition mbox_sync_seek :: "'w ext \<Rightarrow> 'w mbox_sync_context \<Rightarrow> uoff_t \<Rightarrow> int \<times> 'w mbox_sync_context" where
  "mbox_sync_seek ext ctx from_off =
     (let (r, w) = istream_raw_mbox_seek ext (world ctx) from_off;
          ctx1 = ctx\<lparr>world := w\<rparr>
      in if r < 0 then (- 1, log_event (Critical ''Unexpectedly lost From-line'') ctx1)
         else (0, ctx1))"

text \<open>
  \<^verbatim>\<open>mbox_sync_array_delete_to\<close> keeps the records whose range reaches \<open>last_uid\<close>; it
  asserts that every record starts at or before \<open>last_uid\<close>.
\<close>

fun mbox_sync_array_delete_to ::
  "mail_index_sync_rec list \<Rightarrow> uint32 \<Rightarrow> mail_index_sync_rec list option" where
  "mbox_sync_array_delete_to [] last_uid = Some []"
| "mbox_sync_array_delete_to (r # rs) last_uid =
     (if \<not> (last_uid \<ge> uid1 r) then None
      else case mbox_sync_array_delete_to rs last_uid of
             None \<Rightarrow> None
           | Some kept \<Rightarrow> Some (if last_uid \<le> uid2 r then r # kept else kept))"

definition mbox_sync_read_next_mail ::
  "'w ext \<Rightarrow> 'w mbox_sync_context \<Rightarrow> mbox_sync_mail_context \<Rightarrow>
   (int \<times> 'w mbox_sync_context \<times> mbox_sync_mail_context) option" where
  "mbox_sync_read_next_mail ext ctx mail_ctx =
     (let (_, w1) = istream_raw_mbox_get_header_offset ext (world ctx) in
      if istream_raw_mbox_is_eof ext w1 then Some (0, ctx\<lparr>world := w1\<rparr>, mail_ctx)
      else
        let (start, w2) = istream_raw_mbox_get_start_offset ext w1;
            (hoff, w3) = istream_raw_mbox_get_header_offset ext w2;
            ctx3 = ctx\<lparr>world := w3, seq := seq ctx + 1\<rparr>;
            m0 = zero_mail_ctx\<lparr>mail_seq := seq ctx + 1,
                   mail := zero_mail\<lparr>from_offset := start, offset := hoff\<rparr>\<rparr>;
            (ctx4', m1) = mbox_sync_parse_next_mail ext ctx3 m0;
            ctx4 = keep_trace ctx3 ctx4'
        in if \<not> (input_v_offset ext (world ctx4) \<noteq> from_offset (mail m1) \<or> input_eof ext (world ctx4))
           then None
           else
             let (bs, w5) = istream_raw_mbox_get_body_size ext (world ctx4) (content_length m1);
                 m2 = m1\<lparr>mail := (mail m1)\<lparr>body_size := bs\<rparr>\<rparr>;
                 ctx5 = ctx4\<lparr>world := w5\<rparr>
             in if \<not> (bs < OFF_T_MAX) then None
                else if (flags (mail m2) AND MAIL_RECENT ext) \<noteq> 0 \<and> \<not> pseudo m2
                then Some (1, ctx5,
                       m2\<lparr>need_rewrite := (if \<not> keep_recent (mbox ctx5) then True else need_rewrite m2),
                          recent := True\<rparr>)
                else Some (1, ctx5, m2))"

fun mbox_sync_buf_have_expunges :: "mail_index_sync_rec list \<Rightarrow> bool" where
  "mbox_sync_buf_have_expunges [] = False"
| "mbox_sync_buf_have_expunges (r # rs) =
     (if type r = MAIL_INDEX_SYNC_TYPE_EXPUNGE then True else mbox_sync_buf_have_expunges rs)"

text \<open>
  The body of the \<^verbatim>\<open>while (uid >= sync_rec->uid1)\<close> loop of
  \<^verbatim>\<open>mbox_sync_read_index_syncs\<close>, in two steps. First the record at hand is appended
  to the buffer, where it covers \<open>u\<close> and is neither an append nor, in a read-only
  mailbox, an expunge; the last argument and the second result are \<^verbatim>\<open>*sync_expunge_r\<close>.
\<close>

definition mbox_sync_read_index_syncs_take ::
  "'w mbox_sync_context \<Rightarrow> uint32 \<Rightarrow> bool \<Rightarrow> 'w mbox_sync_context \<times> bool" where
  "mbox_sync_read_index_syncs_take ctx u sync_expunge =
     (if u \<le> uid2 (sync_rec ctx) \<and> type (sync_rec ctx) \<noteq> MAIL_INDEX_SYNC_TYPE_APPEND \<and>
         (type (sync_rec ctx) \<noteq> MAIL_INDEX_SYNC_TYPE_EXPUNGE \<or> \<not> mbox_readonly (mbox ctx))
      then (ctx\<lparr>syncs := syncs ctx @ [sync_rec ctx]\<rparr>,
            if type (sync_rec ctx) = MAIL_INDEX_SYNC_TYPE_EXPUNGE then True else sync_expunge)
      else (ctx, sync_expunge))"

text \<open>
  Then the \<^verbatim>\<open>switch (sync_rec->type)\<close> on the record that \<^verbatim>\<open>mail_index_sync_next\<close>
  returned, which is in \<open>sync_rec\<close>; the result is negative where the source returns
  \<open>- 1\<close>.
\<close>

definition mbox_sync_read_index_syncs_switch ::
  "'w ext \<Rightarrow> 'w mbox_sync_context \<Rightarrow> int \<times> 'w mbox_sync_context" where
  "mbox_sync_read_index_syncs_switch ext ctx =
     (let r = sync_rec ctx in
      if type r = MAIL_INDEX_SYNC_TYPE_APPEND
      then (0, ctx\<lparr>next_uid := (if uid2 r \<ge> next_uid ctx then uid2 r + 1 else next_uid ctx),
                   sync_rec := zero_sync_rec\<rparr>)
      else if type r = MAIL_INDEX_SYNC_TYPE_EXPUNGE \<or> type r = MAIL_INDEX_SYNC_TYPE_ZERO then (0, ctx)
      else if delay_writes ctx then
        (let (r3, seq1, seq2) = mail_index_lookup_uid_range ext (world ctx) (uid1 r) (uid2 r) in
         if r3 < 0 then (- 1, ctx)
         else (0, (if seq1 > 0
                   then index_do (Index_update_flags_range seq1 seq2 MODIFY_ADD
                                    (MAIL_INDEX_MAIL_FLAG_DIRTY ext)) ctx
                   else ctx)\<lparr>sync_rec := zero_sync_rec\<rparr>))
      else (0, ctx))"

text \<open>
  The loop. \<open>q\<close> is what \<^verbatim>\<open>mail_index_sync_next\<close> has still to hand out (the loop keeps
  the context's \<open>index_sync_ctx\<close> equal to it).
\<close>

fun mbox_sync_read_index_syncs_loop ::
  "'w ext \<Rightarrow> uint32 \<Rightarrow> sync_next_item list \<Rightarrow> 'w mbox_sync_context \<Rightarrow> bool \<Rightarrow>
   int \<times> 'w mbox_sync_context \<times> bool" where
  "mbox_sync_read_index_syncs_loop ext u q ctx sync_expunge =
     (if \<not> (u \<ge> uid1 (sync_rec ctx)) then (0, ctx, sync_expunge)
      else
        case mbox_sync_read_index_syncs_take ctx u sync_expunge of
          (ctx1, e1) \<Rightarrow>
            (case q of
               [] \<Rightarrow> (0, ctx1\<lparr>sync_rec := zero_sync_rec, index_sync_ctx := Some []\<rparr>, e1)
             | Sync_next_error # q' \<Rightarrow>
                 (- 1, log_event Index_error (ctx1\<lparr>index_sync_ctx := Some q'\<rparr>), e1)
             | Sync_next_rec r # q' \<Rightarrow>
                 (case mbox_sync_read_index_syncs_switch ext (ctx1\<lparr>sync_rec := r, index_sync_ctx := Some q'\<rparr>) of
                    (sr, ctx2) \<Rightarrow>
                      if sr < 0 then (- 1, ctx2, e1)
                      else mbox_sync_read_index_syncs_loop ext u q' ctx2 e1)))"

declare mbox_sync_read_index_syncs_loop.simps [simp del]

definition mbox_sync_read_index_syncs ::
  "'w ext \<Rightarrow> 'w mbox_sync_context \<Rightarrow> uint32 \<Rightarrow> (int \<times> 'w mbox_sync_context \<times> bool) option" where
  "mbox_sync_read_index_syncs ext ctx uid_arg =
     (case index_sync_ctx ctx of
        None \<Rightarrow> Some (0, ctx, False)
      | Some q \<Rightarrow>
          (let u = (if uid_arg = 0 then - 1 else uid_arg) in
           case mbox_sync_array_delete_to (syncs ctx) u of
             None \<Rightarrow> None
           | Some kept \<Rightarrow>
               (let (r, ctx1, e) = mbox_sync_read_index_syncs_loop ext u q (ctx\<lparr>syncs := kept\<rparr>) False in
                if r < 0 then Some (- 1, ctx1, e)
                else Some (0, ctx1, if \<not> e then mbox_sync_buf_have_expunges (syncs ctx1) else e))))"

fun mbox_sync_apply_index_syncs_loop ::
  "'w ext \<Rightarrow> mail_index_sync_rec list \<Rightarrow> mbox_sync_mail \<Rightarrow> bool \<Rightarrow> mbox_sync_mail \<times> bool" where
  "mbox_sync_apply_index_syncs_loop ext [] m changed = (m, changed)"
| "mbox_sync_apply_index_syncs_loop ext (r # rs) m changed =
     (if type r = MAIL_INDEX_SYNC_TYPE_FLAGS
      then mbox_sync_apply_index_syncs_loop ext rs
             (m\<lparr>flags := mail_index_sync_flags_apply ext r (flags m)\<rparr>) changed
      else if type r = MAIL_INDEX_SYNC_TYPE_KEYWORD_ADD \<or> type r = MAIL_INDEX_SYNC_TYPE_KEYWORD_REMOVE \<or>
              type r = MAIL_INDEX_SYNC_TYPE_KEYWORD_RESET
      then (if mail_keywords m = None \<and> type r \<noteq> MAIL_INDEX_SYNC_TYPE_KEYWORD_ADD
            then mbox_sync_apply_index_syncs_loop ext rs m changed
            else
              let ks = (case mail_keywords m of None \<Rightarrow> [] | Some k \<Rightarrow> k);
                  (c, ks') = mail_index_sync_keywords_apply ext r ks
              in mbox_sync_apply_index_syncs_loop ext rs (m\<lparr>mail_keywords := Some ks'\<rparr>)
                   (if c then True else changed))
      else mbox_sync_apply_index_syncs_loop ext rs m changed)"

definition mbox_sync_apply_index_syncs ::
  "'w ext \<Rightarrow> 'w mbox_sync_context \<Rightarrow> mbox_sync_mail \<Rightarrow> mbox_sync_mail \<times> bool" where
  "mbox_sync_apply_index_syncs ext ctx m = mbox_sync_apply_index_syncs_loop ext (syncs ctx) m False"


subsection \<open>Matching a message with its index record\<close>

text \<open>
  The \<^verbatim>\<open>while (sync_ctx->idx_seq <= messages_count)\<close> loop of
  \<^verbatim>\<open>mbox_sync_read_index_rec\<close>. The result is \<open>- 1\<close> when the lookup failed, else \<open>1\<close>
  with the record the loop stopped at. With 32-bit sequence numbers \<^verbatim>\<open>idx_seq++\<close> wraps,
  so the loop is not known to end; a lookup that returns 0 fails the assertion.
\<close>

partial_function (option) mbox_sync_read_index_rec_loop ::
  "'w ext \<Rightarrow> uint32 \<Rightarrow> uint32 \<Rightarrow> 'w mbox_sync_context \<Rightarrow>
   (int \<times> 'w mbox_sync_context \<times> mail_index_record option) option" where
  "mbox_sync_read_index_rec_loop ext u messages_count ctx =
     (if idx_seq ctx \<le> messages_count then
        (case mail_index_lookup ext (world ctx) (idx_seq ctx) of
           (ret, r) \<Rightarrow>
             if ret < 0 then Some (- 1, log_event Index_error ctx, None)
             else if ret = 0 then None
             else (case r of
                     None \<Rightarrow> None
                   | Some found \<Rightarrow>
                       if u \<le> rec_uid found then Some (1, ctx, Some found)
                       else mbox_sync_read_index_rec_loop ext u messages_count
                              ((index_do (Index_expunge (idx_seq ctx)) ctx)\<lparr>idx_seq := idx_seq ctx + 1\<rparr>)))
      else Some (1, ctx, None))"

definition mbox_sync_read_index_rec ::
  "'w ext \<Rightarrow> 'w mbox_sync_context \<Rightarrow> uint32 \<Rightarrow>
   (int \<times> 'w mbox_sync_context \<times> mail_index_record option) option" where
  "mbox_sync_read_index_rec ext ctx u =
     (case mbox_sync_read_index_rec_loop ext u
             (mail_index_view_get_messages_count ext (world ctx)) ctx of
        None \<Rightarrow> None
      | Some (r, ctx1, found) \<Rightarrow>
          if r < 0 then Some (- 1, ctx1, None)
          else if found = None \<and> u < idx_next_uid ctx1
          then Some (0, log_event (Critical ''mbox sync: Expunged message reappeared in mailbox'') ctx1, None)
          else if found \<noteq> None \<and> rec_uid (the found) \<noteq> u
          then Some (0, log_event (Critical ''mbox sync: UID inserted in the middle of mailbox'') ctx1, None)
          else Some (1, ctx1, found))"

partial_function (option) mbox_sync_find_index_md5_loop ::
  "'w ext \<Rightarrow> uint8 list \<Rightarrow> uint32 \<Rightarrow> 'w mbox_sync_context \<Rightarrow>
   (int \<times> 'w mbox_sync_context \<times> mail_index_record option) option" where
  "mbox_sync_find_index_md5_loop ext md5 messages_count ctx =
     (if idx_seq ctx \<le> messages_count then
        (case mail_index_lookup ext (world ctx) (idx_seq ctx) of
           (ret, r) \<Rightarrow>
             if ret < 0 then Some (- 1, log_event Index_error ctx, None)
             else (case mail_index_lookup_ext_md5 ext (world ctx) (idx_seq ctx) of
                     (ret2, data) \<Rightarrow>
                       if ret2 < 0 then Some (- 1, log_event Index_error ctx, None)
                       else if data \<noteq> None \<and> take 16 (the data) = take 16 md5 then Some (0, ctx, r)
                       else mbox_sync_find_index_md5_loop ext md5 messages_count
                              ((index_do (Index_expunge (idx_seq ctx)) ctx)\<lparr>idx_seq := idx_seq ctx + 1\<rparr>)))
      else Some (0, ctx, None))"

definition mbox_sync_find_index_md5 ::
  "'w ext \<Rightarrow> 'w mbox_sync_context \<Rightarrow> uint8 list \<Rightarrow>
   (int \<times> 'w mbox_sync_context \<times> mail_index_record option) option" where
  "mbox_sync_find_index_md5 ext ctx md5 =
     mbox_sync_find_index_md5_loop ext md5 (mail_index_view_get_messages_count ext (world ctx)) ctx"

subsection \<open>Updating the index\<close>

definition mbox_sync_update_from_offset ::
  "'w ext \<Rightarrow> 'w mbox_sync_context \<Rightarrow> mbox_sync_mail \<Rightarrow> bool \<Rightarrow> int \<times> 'w mbox_sync_context" where
  "mbox_sync_update_from_offset ext ctx m nocheck =
     (let upd = (0, index_do (Index_update_ext_mbox (idx_seq ctx) (from_offset m)) ctx) in
      if \<not> nocheck then
        (let (r, data) = mail_index_lookup_ext_mbox ext (world ctx) (idx_seq ctx) in
         if r < 0 then (- 1, log_event Index_error ctx)
         else if data \<noteq> None \<and> the data = from_offset m then (0, ctx)
         else upd)
      else upd)"

definition mbox_sync_update_index_keywords ::
  "'w mbox_sync_context \<Rightarrow> mbox_sync_mail_context \<Rightarrow> 'w mbox_sync_context" where
  "mbox_sync_update_index_keywords ctx mail_ctx =
     index_do (Index_update_keywords (idx_seq ctx) (mail_keywords (mail mail_ctx))) ctx"

definition mbox_sync_update_md5_if_changed ::
  "'w ext \<Rightarrow> 'w mbox_sync_context \<Rightarrow> mbox_sync_mail_context \<Rightarrow> int \<times> 'w mbox_sync_context" where
  "mbox_sync_update_md5_if_changed ext ctx mail_ctx =
     (let (r, ext_data) = mail_index_lookup_ext_md5 ext (world ctx) (idx_seq ctx) in
      if r < 0 then (- 1, log_event Index_error ctx)
      else if ext_data = None \<or> take 16 (hdr_md5_sum mail_ctx) \<noteq> take 16 (the ext_data)
      then (0, index_do (Index_update_ext_md5 (idx_seq ctx) (hdr_md5_sum mail_ctx)) ctx)
      else (0, ctx))"

definition SYNC_FLAGS :: "'w ext \<Rightarrow> uint8" where
  "SYNC_FLAGS ext = (MAIL_RECENT ext OR MAIL_INDEX_MAIL_FLAG_DIRTY ext)"

text \<open>The flag updates of an existing record (the middle of \<^verbatim>\<open>mbox_sync_update_index\<close>).\<close>

definition mbox_sync_update_index_flags ::
  "'w ext \<Rightarrow> 'w mbox_sync_context \<Rightarrow> uint8 \<Rightarrow> uint8 \<Rightarrow> 'w mbox_sync_context" where
  "mbox_sync_update_index_flags ext ctx idx_flags mbox_flags0 =
     (let mbox_flags =
            (if (idx_flags AND MAIL_INDEX_MAIL_FLAG_DIRTY ext) \<noteq> 0
             then (let f = ((mbox_flags0 AND SYNC_FLAGS ext) OR (idx_flags AND NOT (SYNC_FLAGS ext)))
                   in if delay_writes ctx then f OR MAIL_INDEX_MAIL_FLAG_DIRTY ext else f)
             else ((mbox_flags0 AND (MAIL_FLAGS_MASK ext OR SYNC_FLAGS ext)) OR
                   (idx_flags AND NOT (MAIL_FLAGS_MASK ext OR SYNC_FLAGS ext))))
      in if (idx_flags AND NOT (SYNC_FLAGS ext)) \<noteq> (mbox_flags AND NOT (SYNC_FLAGS ext))
         then index_do (Index_update_flags (idx_seq ctx) MODIFY_REPLACE mbox_flags) ctx
         else
           let ctx1 = (if ((idx_flags XOR mbox_flags) AND MAIL_RECENT ext) \<noteq> 0
                       then index_do (Index_update_flags (idx_seq ctx) MODIFY_REMOVE (MAIL_RECENT ext)) ctx
                       else ctx)
           in if ((idx_flags XOR mbox_flags) AND MAIL_INDEX_MAIL_FLAG_DIRTY ext) \<noteq> 0
              then index_do (Index_update_flags (idx_seq ctx1)
                     (if (mbox_flags AND MAIL_INDEX_MAIL_FLAG_DIRTY ext) \<noteq> 0 then MODIFY_ADD else MODIFY_REMOVE)
                     (MAIL_INDEX_MAIL_FLAG_DIRTY ext)) ctx1
              else ctx1)"

definition mbox_sync_update_index ::
  "'w ext \<Rightarrow> 'w mbox_sync_context \<Rightarrow> mbox_sync_mail_context \<Rightarrow> mail_index_record option \<Rightarrow>
   int \<times> 'w mbox_sync_context" where
  "mbox_sync_update_index ext ctx mail_ctx r =
     (let m = mail mail_ctx;
          f0 = flags m AND MAIL_FLAGS_MASK ext;
          mbox_flags = (if dirty mail_ctx then f0 OR MAIL_INDEX_MAIL_FLAG_DIRTY ext
                        else if \<not> delay_writes ctx then f0 AND NOT (MAIL_INDEX_MAIL_FLAG_DIRTY ext)
                        else f0);
          (ret1, ctx1) =
            (case r of
               None \<Rightarrow>
                 (let new_seq = mail_index_append ext (case trans ctx of None \<Rightarrow> [] | Some ops \<Rightarrow> ops) (uid m);
                      c1 = (index_do (Index_append (uid m)) ctx)\<lparr>idx_seq := new_seq\<rparr>;
                      c2 = index_do (Index_update_flags (idx_seq c1) MODIFY_REPLACE mbox_flags) c1;
                      c3 = mbox_sync_update_index_keywords c2 mail_ctx
                  in (0, if mbox_save_md5 (mbox c3)
                         then index_do (Index_update_ext_md5 (idx_seq c3) (hdr_md5_sum mail_ctx)) c3
                         else c3))
             | Some found \<Rightarrow>
                 (let (kr, old_keywords) = mail_index_lookup_keywords ext (world ctx) (idx_seq ctx) in
                  if kr < 0 then (- 1, log_event Index_error ctx)
                  else
                    let (idx_mail, keywords_changed) =
                          mbox_sync_apply_index_syncs ext ctx
                            (zero_mail\<lparr>flags := rec_flags found, mail_keywords := Some old_keywords\<rparr>);
                        c1 = mbox_sync_update_index_flags ext ctx (flags idx_mail) mbox_flags;
                        c2 = (if (flags idx_mail AND MAIL_INDEX_MAIL_FLAG_DIRTY ext) = 0 \<and>
                                 \<not> index_keyword_array_cmp ext (mail_keywords idx_mail) (mail_keywords m)
                              then mbox_sync_update_index_keywords c1 mail_ctx else c1)
                    in if mbox_save_md5 (mbox c2) then mbox_sync_update_md5_if_changed ext c2 mail_ctx
                       else (0, c2)))
      in if ret1 < 0 then (- 1, ctx1)
         else
           let ctx2 = (if recent mail_ctx \<and>
                          (r = None \<or> (rec_flags (the r) AND MAIL_INDEX_MAIL_FLAG_DIRTY ext) = 0 \<or>
                           (rec_flags (the r) AND MAIL_RECENT ext) \<noteq> 0)
                       then index_do (Index_set_recent (idx_seq ctx1)) ctx1 else ctx1)
           in if need_space_seq ctx2 = 0
              then mbox_sync_update_from_offset ext ctx2 m (r = None \<or> 0 <s expunged_space ctx2)
              else (0, ctx2))"


subsection \<open>Headers, expunges and the space window\<close>

text \<open>
  The \<^verbatim>\<open>for (;;)\<close> loop of \<^verbatim>\<open>mbox_read_from_line\<close>; \<open>from_line_size\<close> is what is
  still to be read.
\<close>

partial_function (option) mbox_read_from_line_loop ::
  "'w ext \<Rightarrow> nat \<Rightarrow> 'w mbox_sync_context \<Rightarrow> (int \<times> 'w mbox_sync_context) option" where
  "mbox_read_from_line_loop ext from_line_size ctx =
     (let data = file_input_get_data ext (world ctx);
          n = (if length data \<ge> from_line_size then from_line_size else length data);
          ctx1 = ctx\<lparr>from_line := from_line ctx @ take n data,
                     world := file_input_skip ext (world ctx) n\<rparr>
      in if from_line_size - n = 0 then Some (0, ctx1)
         else (case file_input_read ext (world ctx1) of
                 (r, w) \<Rightarrow>
                   if r < 0 then Some (- 1, ctx1\<lparr>world := w\<rparr>)
                   else mbox_read_from_line_loop ext (from_line_size - n) (ctx1\<lparr>world := w\<rparr>)))"

definition mbox_read_from_line ::
  "'w ext \<Rightarrow> 'w mbox_sync_context \<Rightarrow> mbox_sync_mail_context \<Rightarrow> (int \<times> 'w mbox_sync_context) option" where
  "mbox_read_from_line ext ctx mail_ctx =
     mbox_read_from_line_loop ext (unat (hdr_offset mail_ctx - from_offset (mail mail_ctx)))
       (ctx\<lparr>from_line := [], world := file_input_seek ext (world ctx) (from_offset (mail mail_ctx))\<rparr>)"

definition mbox_write_from_line ::
  "'w ext \<Rightarrow> 'w mbox_sync_context \<Rightarrow> mbox_sync_mail_context \<Rightarrow> int \<times> 'w mbox_sync_context" where
  "mbox_write_from_line ext ctx mail_ctx =
     (let (r, e, w) = pwrite_full ext (world ctx) (write_fd ctx) (from_line ctx) (from_offset (mail mail_ctx));
          ctx1 = log_event (Pwrite (write_fd ctx) (from_offset (mail mail_ctx)) (from_line ctx)) (ctx\<lparr>world := w\<rparr>)
      in if r < 0 then (- 1, log_event (Syscall_error ''pwrite_full()'') ctx1)
         else (0, ctx1\<lparr>world := input_sync ext (world ctx1)\<rparr>))"

fun update_from_offsets_loop ::
  "'w ext \<Rightarrow> mbox_sync_mail list \<Rightarrow> 'w mbox_sync_context \<Rightarrow> 'w mbox_sync_context" where
  "update_from_offsets_loop ext [] ctx = ctx"
| "update_from_offsets_loop ext (m # ms) ctx =
     (if mail_idx_seq m = 0 \<or> (flags m AND MBOX_EXPUNGED ext) \<noteq> 0
      then update_from_offsets_loop ext ms ctx
      else update_from_offsets_loop ext ms
             (index_do (Index_update_ext_mbox (mail_idx_seq m) (from_offset m)) (ctx\<lparr>moved_offsets := True\<rparr>)))"

definition update_from_offsets :: "'w ext \<Rightarrow> 'w mbox_sync_context \<Rightarrow> 'w mbox_sync_context" where
  "update_from_offsets ext ctx = update_from_offsets_loop ext (mails ctx) ctx"

definition mbox_sync_handle_expunge ::
  "'w ext \<Rightarrow> 'w mbox_sync_context \<Rightarrow> mbox_sync_mail_context \<Rightarrow>
   'w mbox_sync_context \<times> mbox_sync_mail_context" where
  "mbox_sync_handle_expunge ext ctx mail_ctx =
     (let m = mail mail_ctx;
          m1 = m\<lparr>flags := MBOX_EXPUNGED ext,
                 offset := from_offset m,
                 space := body_offset mail_ctx - from_offset m + body_size m,
                 body_size := 0\<rparr>;
          crlf = istream_raw_mbox_has_crlf_ending ext (world ctx);
          m2 = (if seq ctx = 1
                then (if crlf then m1\<lparr>space := space m1 + 1 + 1\<rparr> else m1\<lparr>space := space m1 + 1\<rparr>)
                else m1);
          ctx1 = (if seq ctx = 1
                  then (if crlf then ctx\<lparr>first_mail_crlf_expunged := True, base_uid_last_offset := 0\<rparr>
                        else ctx\<lparr>base_uid_last_offset := 0\<rparr>)
                  else ctx)
      in (ctx1\<lparr>expunged_space := expunged_space ctx1 + space m2\<rparr>, mail_ctx\<lparr>mail := m2\<rparr>))"

text \<open>
  The end of \<^verbatim>\<open>mbox_sync_handle_header\<close> (from \<^verbatim>\<open>if (ret == 0 && ...)\<close> on): the first
  mail with no space to write it opens the window.
\<close>

definition mbox_sync_handle_header_no_space ::
  "'w ext \<Rightarrow> int \<Rightarrow> 'w mbox_sync_context \<Rightarrow> mbox_sync_mail_context \<Rightarrow>
   (int \<times> 'w mbox_sync_context \<times> mbox_sync_mail_context) option" where
  "mbox_sync_handle_header_no_space ext ret ctx mail_ctx =
     (if ret = 0 \<and> need_space_seq ctx = 0 then
        (let ctx1 = ctx\<lparr>need_space_seq := seq ctx, space_diff := 0\<rparr> in
         if 0 <s expunged_space ctx1 then
           (let v = (if dest_first_mail ctx1 then 1 else 0) + from_offset (mail mail_ctx) - expunged_space ctx1;
                dummy = zero_mail\<lparr>flags := MBOX_EXPUNGED ext, offset := v, from_offset := v,
                          space := expunged_space ctx1\<rparr>;
                ctx2 = ctx1\<lparr>space_diff := expunged_space ctx1, expunged_space := 0\<rparr>
            in if \<not> (space_diff ctx2 <s - space (mail mail_ctx)) then None
               else Some (0, ctx2\<lparr>need_space_seq := need_space_seq ctx2 - 1, mails := mails ctx2 @ [dummy]\<rparr>,
                          mail_ctx))
         else Some (0, ctx1, mail_ctx))
      else Some (0, ctx, mail_ctx))"

definition mbox_sync_handle_header ::
  "'w ext \<Rightarrow> 'w mbox_sync_context \<Rightarrow> mbox_sync_mail_context \<Rightarrow>
   (int \<times> 'w mbox_sync_context \<times> mbox_sync_mail_context) option" where
  "mbox_sync_handle_header ext ctx mail_ctx =
     (if 0 <s expunged_space ctx \<and> need_space_seq ctx = 0 then
        (let move_diff = - expunged_space ctx;
             orig_from_offset = from_offset (mail mail_ctx);
             m1 = (if dest_first_mail ctx
                   then mail_ctx\<lparr>mail := (mail mail_ctx)\<lparr>from_offset :=
                          (if first_mail_crlf_expunged ctx then orig_from_offset + 1 + 1
                           else orig_from_offset + 1)\<rparr>\<rparr>
                   else mail_ctx)
         in case mbox_read_from_line ext ctx m1 of
              None \<Rightarrow> None
            | Some (r, ctx1) \<Rightarrow>
                if r < 0 then Some (- 1, ctx1, m1)
                else
                  let (ctx2', m2) = mbox_sync_update_header ext ctx1 m1;
                      ctx2 = keep_trace ctx1 ctx2';
                      (ret, ctx3', m3) = mbox_sync_try_rewrite ext ctx2 m2 move_diff;
                      ctx3 = log_event (Try_rewrite (mail_seq m2) move_diff) (keep_trace ctx2 ctx3')
                  in if ret < 0 then Some (- 1, ctx3, m3)
                     else if ret > 0 then
                       (if \<not> (0 <s move_diff \<or> - move_diff \<le>s from_offset (mail m3)) then None
                        else
                          let m4 = m3\<lparr>mail := (mail m3)\<lparr>from_offset := from_offset (mail m3) + move_diff,
                                                          offset := offset (mail m3) + move_diff\<rparr>\<rparr>;
                              (r5, ctx5) = mbox_write_from_line ext ctx3 m4
                          in if r5 < 0 then Some (- 1, ctx5, m4)
                             else mbox_sync_handle_header_no_space ext ret ctx5 m4)
                     else mbox_sync_handle_header_no_space ext ret ctx3
                            (if dest_first_mail ctx3
                             then m3\<lparr>mail := (mail m3)\<lparr>from_offset := orig_from_offset\<rparr>\<rparr>
                             else m3))
      else if need_rewrite mail_ctx \<or> syncs ctx \<noteq> [] then
        (let (ctx1', m1) = mbox_sync_update_header ext ctx mail_ctx;
             ctx1 = keep_trace ctx ctx1'
         in if delay_writes ctx1 then Some (0, ctx1, m1\<lparr>dirty := True\<rparr>)
            else
              let (ret, ctx2', m2) = mbox_sync_try_rewrite ext ctx1 m1 0;
                  ctx2 = log_event (Try_rewrite (mail_seq m1) 0) (keep_trace ctx1 ctx2')
              in if ret < 0 then Some (- 1, ctx2, m2)
                 else mbox_sync_handle_header_no_space ext ret ctx2 m2)
      else Some (0, ctx, mail_ctx))"

definition mbox_sync_handle_missing_space ::
  "'w ext \<Rightarrow> 'w mbox_sync_context \<Rightarrow> mbox_sync_mail_context \<Rightarrow>
   (int \<times> 'w mbox_sync_context \<times> mbox_sync_mail_context) option" where
  "mbox_sync_handle_missing_space ext ctx mail_ctx =
     (let m = mail mail_ctx in
      if \<not> (uid m = 0 \<or> 0 <s space m \<or> offset m = hdr_offset mail_ctx) then None
      else
        let ctx1 = ctx\<lparr>mails := mails ctx @ [m], space_diff := space_diff ctx + space m\<rparr> in
        if space_diff ctx1 <s 0 then
          (if 0 <s expunged_space ctx1
           then (if \<not> (expunged_space ctx1 = space m) then None
                 else Some (0, ctx1\<lparr>expunged_space := 0\<rparr>, mail_ctx))
           else Some (0, ctx1, mail_ctx))
        else
          let window = ucast (MBOX_HEADER_PADDING ext * (seq ctx1 - need_space_seq ctx1 + 1)) :: uoff_t;
              needed_space = space m - space_diff ctx1;
              plan =
                (if uid m = 0 then
                   (if \<not> (space_diff ctx1 \<le>s space m) then None
                    else if space_diff ctx1 > needed_space + window
                    then Some (ctx1\<lparr>expunged_space := space m - (needed_space + window),
                                     mails := butlast (mails ctx1)\<rparr>,
                               seq ctx1 - 1, from_offset m, needed_space + window, window)
                    else Some (ctx1\<lparr>expunged_space := 0, mails := butlast (mails ctx1)\<rparr>,
                               seq ctx1 - 1, from_offset m, space m, space_diff ctx1))
                 else Some (ctx1\<lparr>expunged_space := 0\<rparr>, seq ctx1, body_offset mail_ctx, 0, space_diff ctx1))
          in case plan of
               None \<Rightarrow> None
             | Some (ctx2, last_seq, end_offset, move_diff, extra_space) \<Rightarrow>
                 (let (r, ctx3', m3) =
                        mbox_sync_rewrite ext ctx2 (if last_seq = seq ctx2 then Some mail_ctx else None)
                          end_offset move_diff extra_space (need_space_seq ctx2) last_seq;
                      ctx3 = log_event (Rewrite end_offset move_diff extra_space (need_space_seq ctx2) last_seq)
                               (keep_trace ctx2 ctx3')
                  in if r < 0 then Some (- 1, ctx3, (case m3 of None \<Rightarrow> mail_ctx | Some x \<Rightarrow> x))
                     else Some (0, (update_from_offsets ext ctx3)\<lparr>need_space_seq := 0, space_diff := 0, mails := []\<rparr>,
                                zero_mail_ctx)))"


subsection \<open>Seeking\<close>

definition mbox_sync_seek_to_seq ::
  "'w ext \<Rightarrow> 'w mbox_sync_context \<Rightarrow> uint32 \<Rightarrow> int \<times> 'w mbox_sync_context" where
  "mbox_sync_seek_to_seq ext ctx seq_arg =
     (let positioned =
            (if seq_arg = 0 then
               (let (r, w) = istream_raw_mbox_seek ext (world ctx) 0 in
                if r < 0
                then Inl (- 1, log_event (Storage_error ''Mailbox isn't a valid mbox file'') (ctx\<lparr>world := w\<rparr>))
                else Inr (ctx\<lparr>world := w\<rparr>, seq_arg + 1))
             else
               (let (old_offset, w1) = istream_raw_mbox_get_start_offset ext (world ctx);
                    (ret, w2) = mbox_file_seek ext w1 seq_arg
                in if ret < 0 then Inl (- 1, ctx\<lparr>world := w2\<rparr>)
                   else if ret = 0 then
                     (let (r, w3) = istream_raw_mbox_seek ext w2 old_offset in
                      if r < 0
                      then Inl (- 1, log_event (Critical ''Error seeking back to original offset'') (ctx\<lparr>world := w3\<rparr>))
                      else Inl (0, ctx\<lparr>world := w3\<rparr>))
                   else Inr (ctx\<lparr>world := w2\<rparr>, seq_arg)))
      in case positioned of
           Inl res \<Rightarrow> res
         | Inr (ctx1, sq) \<Rightarrow>
             (let (r, u) = (if sq \<le> 1 then (0, 0) else mail_index_lookup_uid ext (world ctx1) (sq - 1)) in
              if \<not> sq \<le> 1 \<and> r < 0 then (- 1, log_event Index_error ctx1)
              else
                let ctx2 = ctx1\<lparr>prev_msg_uid := u, seq := sq - 1\<rparr>;
                    (start, w4) = (if seq ctx2 = 0 then istream_raw_mbox_get_start_offset ext (world ctx2)
                                   else (0, world ctx2));
                    ctx3 = (if seq ctx2 = 0 \<and> start \<noteq> 0 then ctx2\<lparr>world := w4, seq := seq ctx2 + 1\<rparr>
                            else ctx2\<lparr>world := w4\<rparr>);
                    ctx4 = ctx3\<lparr>idx_seq := sq, dest_first_mail := (seq ctx3 = 0)\<rparr>;
                    (_, w5) = istream_raw_mbox_get_body_offset ext (world ctx4)
                in (1, ctx4\<lparr>world := w5\<rparr>)))"

definition mbox_sync_seek_to_uid ::
  "'w ext \<Rightarrow> 'w mbox_sync_context \<Rightarrow> uint32 \<Rightarrow> int \<times> 'w mbox_sync_context" where
  "mbox_sync_seek_to_uid ext ctx u =
     (let (r, seq1, seq2) = mail_index_lookup_uid_range ext (world ctx) u (- 1) in
      if r < 0 then (- 1, log_event Index_error ctx)
      else if seq1 = 0 then
        (let (st, w1) = file_input_stat ext (world ctx) True;
             ctx1 = ctx\<lparr>world := w1\<rparr>
         in case st of
              None \<Rightarrow> (- 1, log_event (Syscall_error ''i_stream_stat()'') ctx1)
            | Some s \<Rightarrow>
                (let (r2, w2) = istream_raw_mbox_seek ext (world ctx1) (st_size s) in
                 if r2 < 0
                 then (- 1, log_event (Critical ''Error seeking to end of mbox file'') (ctx1\<lparr>world := w2\<rparr>))
                 else (1, ctx1\<lparr>world := w2,
                                idx_seq := mail_index_view_get_messages_count ext w2 + 1\<rparr>)))
      else mbox_sync_seek_to_seq ext ctx seq1)"

text \<open>
  \<^verbatim>\<open>mbox_sync_partial_seek_next\<close>; the result carries \<^verbatim>\<open>*partial\<close> and
  \<^verbatim>\<open>*skipped_mails\<close>.
\<close>

definition mbox_sync_partial_seek_next ::
  "'w ext \<Rightarrow> 'w mbox_sync_context \<Rightarrow> uint32 \<Rightarrow> bool \<Rightarrow> bool \<Rightarrow>
   (int \<times> 'w mbox_sync_context \<times> bool \<times> bool) option" where
  "mbox_sync_partial_seek_next ext ctx next_uid_arg partial skipped_mails =
     (case mbox_sync_array_delete_to (syncs ctx) next_uid_arg of
        None \<Rightarrow> None
      | Some kept \<Rightarrow>
          (let ctx1 = ctx\<lparr>syncs := kept\<rparr> in
           if kept \<noteq> [] then Some (1, ctx1, partial, skipped_mails)
           else if uid1 (sync_rec ctx1) \<noteq> 0 then
             (let skipped1 = (if uid1 (sync_rec ctx1) \<noteq> next_uid_arg then True else skipped_mails);
                  (ret, ctx2) = mbox_sync_seek_to_uid ext ctx1 (uid1 (sync_rec ctx1))
              in if ret = 0 then Some (1, ctx2, False, skipped1)
                 else Some (ret, ctx2, partial, skipped1))
           else if \<not> mbox_sync_dirty (mbox ctx1) then Some (0, ctx1, partial, skipped_mails)
           else
             (let messages_count = mail_index_view_get_messages_count ext (world ctx1) in
              if seq ctx1 + 1 \<noteq> messages_count
              then (let (ret, ctx2) = mbox_sync_seek_to_seq ext ctx1 messages_count in
                    if ret = 0 then Some (1, ctx2, False, True)
                    else Some (ret, ctx2, False, True))
              else Some (1, ctx1, False, skipped_mails))))"


subsection \<open>The sync loop\<close>

text \<open>
  \<^verbatim>\<open>while (sync_ctx->idx_seq <= messages_count) mail_index_expunge(sync_ctx->t,
  sync_ctx->idx_seq++)\<close>, which \<^verbatim>\<open>mbox_sync_loop\<close> runs in three places.
\<close>

partial_function (option) expunge_rest ::
  "uint32 \<Rightarrow> 'w mbox_sync_context \<Rightarrow> 'w mbox_sync_context option" where
  "expunge_rest messages_count ctx =
     (if idx_seq ctx \<le> messages_count
      then expunge_rest messages_count
             ((index_do (Index_expunge (idx_seq ctx)) ctx)\<lparr>idx_seq := idx_seq ctx + 1\<rparr>)
      else Some ctx)"

text \<open>
  The locals of \<^verbatim>\<open>mbox_sync_loop\<close> that live across iterations, with the context and
  the mail context it works on.
\<close>

record 'w loop_state =
  l_ctx :: "'w mbox_sync_context"
  l_mail_ctx :: mbox_sync_mail_context
  l_partial :: bool
  l_skipped_mails :: bool
  l_uids_broken :: bool

text \<open>How one iteration ends: \<^verbatim>\<open>return\<close> with a value, \<^verbatim>\<open>break\<close>, or the next iteration.\<close>

datatype 'a flow = Return int 'a | Break 'a | Continue 'a

text \<open>
  The end of an iteration, from \<^verbatim>\<open>if (!mail_ctx->pseudo) mail_ctx->mail.idx_seq = ...\<close>
  on: the header or expunge handler, the index update, and the space planner or the
  partial seek. \<open>u\<close>, \<open>r\<close> and \<open>expunged\<close> are the locals \<^verbatim>\<open>uid\<close>, \<^verbatim>\<open>rec\<close> and
  \<^verbatim>\<open>expunged\<close>.
\<close>

definition mbox_sync_loop_handle ::
  "'w ext \<Rightarrow> 'w loop_state \<Rightarrow> uint32 \<Rightarrow> mail_index_record option \<Rightarrow> bool \<Rightarrow>
   'w loop_state flow option" where
  "mbox_sync_loop_handle ext st u r expunged =
     (let m0 = (if \<not> pseudo (l_mail_ctx st)
                then (l_mail_ctx st)\<lparr>mail := (mail (l_mail_ctx st))\<lparr>mail_idx_seq := idx_seq (l_ctx st)\<rparr>\<rparr>
                else l_mail_ctx st);
          handled =
            (if \<not> expunged then
               (case mbox_sync_handle_header ext (l_ctx st) m0 of
                  None \<Rightarrow> None
                | Some (hr, c, m) \<Rightarrow> Some (hr, if hr < 0 then c else c\<lparr>dest_first_mail := False\<rparr>, m))
             else
               (let (c, m) = mbox_sync_handle_expunge ext (l_ctx st) (m0\<lparr>mail := (mail m0)\<lparr>uid := 0\<rparr>\<rparr>)
                in Some (0, c, m)))
      in case handled of
           None \<Rightarrow> None
         | Some (hr, c1, m1) \<Rightarrow>
             if hr < 0 then Some (Return (- 1) (st\<lparr>l_ctx := c1, l_mail_ctx := m1\<rparr>))
             else
               let (ur, c2) = (if \<not> pseudo m1 \<and> \<not> expunged then mbox_sync_update_index ext c1 m1 r
                               else (0, c1))
               in if ur < 0 then Some (Return (- 1) (st\<lparr>l_ctx := c2, l_mail_ctx := m1\<rparr>))
                  else
                    let c3 = (if \<not> pseudo m1 then c2\<lparr>idx_seq := idx_seq c2 + 1\<rparr> else c2);
                        w4 = istream_raw_mbox_next ext (world c3) (body_size (mail m1));
                        (next_offset, w5) = istream_raw_mbox_get_start_offset ext w4;
                        c5 = c3\<lparr>world := w5\<rparr>
                    in if need_space_seq c5 \<noteq> 0 then
                         (case mbox_sync_handle_missing_space ext c5 m1 of
                            None \<Rightarrow> None
                          | Some (sr, c6, m6) \<Rightarrow>
                              if sr < 0 then Some (Return (- 1) (st\<lparr>l_ctx := c6, l_mail_ctx := m6\<rparr>))
                              else (let (kr, c7) = mbox_sync_seek ext c6 next_offset in
                                    if kr < 0 then Some (Return (- 1) (st\<lparr>l_ctx := c7, l_mail_ctx := m6\<rparr>))
                                    else Some (Continue (st\<lparr>l_ctx := c7, l_mail_ctx := m6\<rparr>))))
                       else if 0 <s expunged_space c5 then
                         (if \<not> expunged then
                            (let (mr, c6') = mbox_move ext c5 (body_offset m1 - expunged_space c5)
                                               (body_offset m1) (body_size (mail m1));
                                 c6 = log_event (Mbox_move (body_offset m1 - expunged_space c5)
                                                   (body_offset m1) (body_size (mail m1)))
                                        (keep_trace c5 c6')
                             in if mr < 0 then Some (Return (- 1) (st\<lparr>l_ctx := c6, l_mail_ctx := m1\<rparr>))
                                else (let (kr, c7) = mbox_sync_seek ext c6 next_offset in
                                      if kr < 0 then Some (Return (- 1) (st\<lparr>l_ctx := c7, l_mail_ctx := m1\<rparr>))
                                      else Some (Continue (st\<lparr>l_ctx := c7, l_mail_ctx := m1\<rparr>))))
                          else Some (Continue (st\<lparr>l_ctx := c5, l_mail_ctx := m1\<rparr>)))
                       else if l_partial st then
                         (case mbox_sync_partial_seek_next ext c5 (u + 1) (l_partial st) (l_skipped_mails st) of
                            None \<Rightarrow> None
                          | Some (pr, c6, partial', skipped') \<Rightarrow>
                              (let st' = st\<lparr>l_ctx := c6, l_mail_ctx := m1, l_partial := partial',
                                            l_skipped_mails := skipped'\<rparr>
                               in if pr \<le> 0 then (if pr < 0 then Some (Return (- 1) st') else Some (Break st'))
                                  else Some (Continue st')))
                       else Some (Continue (st\<lparr>l_ctx := c5, l_mail_ctx := m1\<rparr>)))"

text \<open>
  The middle of an iteration, first part (from \<^verbatim>\<open>rec = NULL; ret = 1;\<close> to the MD5
  search): the index record of the message. The result carries the locals \<^verbatim>\<open>uid\<close> and
  \<^verbatim>\<open>rec\<close>; its first component is negative where the source returns \<open>- 1\<close>.
\<close>

definition mbox_sync_loop_lookup ::
  "'w ext \<Rightarrow> uint32 \<Rightarrow> 'w mbox_sync_context \<Rightarrow> mbox_sync_mail_context \<Rightarrow> uint32 \<Rightarrow>
   (int \<times> 'w mbox_sync_context \<times> mbox_sync_mail_context \<times> uint32 \<times> mail_index_record option) option" where
  "mbox_sync_loop_lookup ext messages_count c m u0 =
     (case (if u0 \<noteq> 0 then mbox_sync_read_index_rec ext c u0 else Some (1, c, None)) of
        None \<Rightarrow> None
      | Some (ret, c1, r1) \<Rightarrow>
          (if ret < 0 then Some (- 1, c1, m, u0, None)
           else if ret = 0 then Some (0, c1, m, 0, r1)
           else if u0 = 0 \<and> \<not> pseudo m \<and> (delay_writes c1 \<or> idx_seq c1 \<le> messages_count)
           then (case mbox_sync_find_index_md5 ext
                        (c1\<lparr>mbox := (mbox c1)\<lparr>mbox_save_md5 := True\<rparr>\<rparr>) (hdr_md5_sum m) of
                   None \<Rightarrow> None
                 | Some (fr, c2, r2) \<Rightarrow>
                     (case r2 of
                        None \<Rightarrow> Some (fr, c2, m, u0, r2)
                      | Some found \<Rightarrow>
                          (if fr < 0 then Some (fr, c2, m, u0, r2)
                           else Some (fr, c2, m\<lparr>mail := (mail m)\<lparr>uid := rec_uid found\<rparr>\<rparr>,
                                      rec_uid found, r2))))
           else Some (0, c1, m, u0, r1)))"

text \<open>
  The middle of an iteration, second part: the pending sync records of the message, and
  a fresh UID from \<open>next_uid\<close> where the message has none that can be used.
\<close>

definition mbox_sync_loop_uid ::
  "'w ext \<Rightarrow> uint32 \<Rightarrow> 'w loop_state \<Rightarrow> uint32 \<Rightarrow> 'w loop_state flow option" where
  "mbox_sync_loop_uid ext messages_count st u0 =
     (case mbox_sync_loop_lookup ext messages_count (l_ctx st) (l_mail_ctx st) u0 of
        None \<Rightarrow> None
      | Some (fr, c2, m2, u, r) \<Rightarrow>
          (if fr < 0 then Some (Return (- 1) (st\<lparr>l_ctx := c2, l_mail_ctx := m2\<rparr>))
           else
            (case mbox_sync_read_index_syncs ext c2 (if pseudo m2 then 1 else u) of
               None \<Rightarrow> None
             | Some (sr, c3, e) \<Rightarrow>
                 (if sr < 0 then Some (Return (- 1) (st\<lparr>l_ctx := c3, l_mail_ctx := m2\<rparr>))
                  else
                   (let expunged = (if pseudo m2 then False else e);
                        st3 = st\<lparr>l_ctx := c3, l_mail_ctx := m2,
                                 l_partial := (if \<not> pseudo m2 \<and> r = None then False else l_partial st)\<rparr>
                    in if u = 0 \<and> \<not> pseudo m2 then
                         (case expunge_rest messages_count c3 of
                            None \<Rightarrow> None
                          | Some c4 \<Rightarrow>
                              (if next_uid c4 = - 1
                               then Some (Return 0 (st3\<lparr>l_ctx :=
                                      (log_event (Critical ''Out of UIDs, renumbering them in mbox file'') c4)
                                        \<lparr>renumber_uids := True\<rparr>\<rparr>))
                               else mbox_sync_loop_handle ext
                                      (st3\<lparr>l_ctx := c4\<lparr>next_uid := next_uid c4 + 1,
                                                         prev_msg_uid := next_uid c4\<rparr>,
                                           l_mail_ctx := m2\<lparr>need_rewrite := True,
                                                           mail := (mail m2)\<lparr>uid := next_uid c4\<rparr>\<rparr>\<rparr>)
                                      u r expunged))
                       else mbox_sync_loop_handle ext st3 u r expunged)))))"

text \<open>
  The start of an iteration, after \<^verbatim>\<open>mbox_sync_read_next_mail\<close> returned a message: the
  UID validity guard and the guard on broken UIDs in a partial sync.
\<close>

definition mbox_sync_loop_body ::
  "'w ext \<Rightarrow> uint32 \<Rightarrow> 'w loop_state \<Rightarrow> 'w loop_state flow option" where
  "mbox_sync_loop_body ext messages_count st =
     (let c = l_ctx st; m = l_mail_ctx st in
      if mail_seq m = 1 \<and> base_uid_validity c \<noteq> 0 \<and> hdr_uid_validity (hdr c) \<noteq> 0 \<and>
         base_uid_validity c \<noteq> hdr_uid_validity (hdr c)
      then Some (Return (- 1)
             (st\<lparr>l_ctx := log_event Mark_corrupted (log_event (Critical ''UIDVALIDITY changed in mbox file'') c)\<rparr>))
      else if uid_broken (mail m) \<and> l_partial st then
        (if mbox_sync_dirty (mbox c) then Some (Return 0 st)
         else Some (Return 0
                (st\<lparr>l_ctx := (log_event (Critical ''UIDs broken with partial sync in mbox file'') c)
                              \<lparr>mbox := (mbox c)\<lparr>mbox_sync_dirty := True\<rparr>\<rparr>\<rparr>)))
      else mbox_sync_loop_uid ext messages_count
             (if uid_broken (mail m) then st\<lparr>l_uids_broken := True\<rparr> else st)
             (if pseudo m then 0 else uid (mail m)))"

text \<open>
  The \<^verbatim>\<open>while ((ret = mbox_sync_read_next_mail(...)) > 0)\<close> loop. The result is
  \<open>Return\<close> where the function returns from inside the loop and \<open>Break\<close> where the loop
  is left.
\<close>

partial_function (option) mbox_sync_loop_while ::
  "'w ext \<Rightarrow> uint32 \<Rightarrow> 'w loop_state \<Rightarrow> 'w loop_state flow option" where
  "mbox_sync_loop_while ext messages_count st =
     (case mbox_sync_read_next_mail ext (l_ctx st) (l_mail_ctx st) of
        None \<Rightarrow> None
      | Some (ret, c1, m1) \<Rightarrow>
          if ret > 0 then
            (case mbox_sync_loop_body ext messages_count (st\<lparr>l_ctx := c1, l_mail_ctx := m1\<rparr>) of
               None \<Rightarrow> None
             | Some (Return v s) \<Rightarrow> Some (Return v s)
             | Some (Break s) \<Rightarrow> Some (Break s)
             | Some (Continue s) \<Rightarrow> mbox_sync_loop_while ext messages_count s)
          else Some (Break (st\<lparr>l_ctx := c1, l_mail_ctx := m1\<rparr>)))"

definition mbox_sync_loop ::
  "'w ext \<Rightarrow> 'w mbox_sync_context \<Rightarrow> mbox_sync_mail_context \<Rightarrow> bool \<Rightarrow>
   (int \<times> 'w mbox_sync_context \<times> mbox_sync_mail_context) option" where
  "mbox_sync_loop ext ctx0 mail_ctx0 partial0 =
     (let messages_count = mail_index_view_get_messages_count ext (world ctx0);
          (ret, c1) = mbox_sync_seek_to_seq ext ctx0 0
      in if ret \<le> 0 then Some (ret, c1, mail_ctx0)
         else
           case (if renumber_uids c1 then expunge_rest messages_count c1 else Some c1) of
             None \<Rightarrow> None
           | Some c2 \<Rightarrow>
               (case mbox_sync_loop_while ext messages_count
                       \<lparr>l_ctx = c2, l_mail_ctx = mail_ctx0, l_partial = partial0,
                        l_skipped_mails = False, l_uids_broken = False\<rparr> of
                  None \<Rightarrow> None
                | Some (Return v s) \<Rightarrow> Some (v, l_ctx s, l_mail_ctx s)
                | Some (Continue s) \<Rightarrow> None
                | Some (Break s) \<Rightarrow>
                    (case (if istream_raw_mbox_is_eof ext (world (l_ctx s))
                           then expunge_rest messages_count (l_ctx s) else Some (l_ctx s)) of
                       None \<Rightarrow> None
                     | Some c3 \<Rightarrow>
                         (let c4 = (if \<not> l_skipped_mails s
                                    then c3\<lparr>mbox := (mbox c3)\<lparr>mbox_sync_dirty := False\<rparr>\<rparr> else c3);
                              c5 = (if l_uids_broken s \<and> delay_writes c4
                                    then c4\<lparr>mbox := (mbox c4)\<lparr>mbox_sync_dirty := True\<rparr>\<rparr> else c4)
                          in Some (1, c5, l_mail_ctx s)))))"


text \<open>
  \<open>loop_reaches ext n st0 st\<close>: started in \<open>st0\<close>, the \<^verbatim>\<open>while\<close> loop is at the top of
  an iteration in state \<open>st\<close>, every iteration before having run to its end.
\<close>

inductive loop_reaches :: "'w ext \<Rightarrow> uint32 \<Rightarrow> 'w loop_state \<Rightarrow> 'w loop_state \<Rightarrow> bool"
  for ext :: "'w ext" and messages_count :: uint32 where
  reaches_start: "loop_reaches ext messages_count st st"
| reaches_next:
    "loop_reaches ext messages_count st0 st \<Longrightarrow>
     mbox_sync_read_next_mail ext (l_ctx st) (l_mail_ctx st) = Some (ret, c, m) \<Longrightarrow> ret > 0 \<Longrightarrow>
     mbox_sync_loop_body ext messages_count (st\<lparr>l_ctx := c, l_mail_ctx := m\<rparr>) = Some (Continue st') \<Longrightarrow>
     loop_reaches ext messages_count st0 st'"

subsection \<open>The X-IMAPbase header and the pseudo message\<close>

text \<open>
  The \<^verbatim>\<open>for\<close> loop of \<^verbatim>\<open>mbox_rewrite_base_uid_last\<close> over the bytes read back:
  \<^verbatim>\<open>uid_last\<close> is a \<^verbatim>\<open>uint32_t\<close>, and a byte that is not a digit ends the loop with
  \<^verbatim>\<open>(uint32_t)-1\<close>.
\<close>

fun scan_uid_last :: "uint8 list \<Rightarrow> uint32 \<Rightarrow> uint32" where
  "scan_uid_last [] uid_last = uid_last"
| "scan_uid_last (b # bs) uid_last =
     (if b < 48 \<or> b > 57 then - 1 else scan_uid_last bs (uid_last * 10 + ucast (b - 48)))"

definition mbox_rewrite_base_uid_last ::
  "'w ext \<Rightarrow> 'w mbox_sync_context \<Rightarrow> (int \<times> 'w mbox_sync_context) option" where
  "mbox_rewrite_base_uid_last ext ctx =
     (if \<not> (base_uid_last_offset ctx \<noteq> 0) then None
      else
        let (ret, buf, w1) = pread_full ext (world ctx) (write_fd ctx) 10 (base_uid_last_offset ctx);
            ctx1 = ctx\<lparr>world := w1\<rparr>
        in if ret < 0 then Some (- 1, log_event (Syscall_error ''pread_full()'') ctx1)
           else if ret = 0
           then Some (- 1, log_event (Critical ''X-IMAPbase uid-last unexpectedly points outside mbox file'') ctx1)
           else if scan_uid_last (take 10 buf) 0 \<noteq> base_uid_last ctx1
           then Some (- 1, log_event (Critical ''X-IMAPbase uid-last unexpectedly lost in mbox file'') ctx1)
           else
             let str = printf_010u (next_uid ctx1 - 1);
                 (wr, e, w2) = pwrite_full ext (world ctx1) (write_fd ctx1) (take 10 str) (base_uid_last_offset ctx1);
                 ctx2 = log_event (Pwrite (write_fd ctx1) (base_uid_last_offset ctx1) (take 10 str))
                          (ctx1\<lparr>world := w2\<rparr>)
             in if wr < 0 then Some (- 1, log_event (Syscall_error ''pwrite_full()'') ctx2)
                else Some (0, ctx2\<lparr>base_uid_last := next_uid ctx2 - 1\<rparr>))"

definition PSEUDO_MESSAGE_BODY :: string where
  "PSEUDO_MESSAGE_BODY =
     ''This text is part of the internal format of your mail folder, and is not'' @ [CHR 0x0A] @
     ''a real message.  It is created automatically by the mail system software.'' @ [CHR 0x0A] @
     ''If deleted, important folder data will be lost, and it will be re-created'' @ [CHR 0x0A] @
     ''with the data reset to initial values.'' @ [CHR 0x0A]"

definition pseudo_message :: "'w ext \<Rightarrow> 'w \<Rightarrow> uint32 \<Rightarrow> uint32 \<Rightarrow> uint8 list" where
  "pseudo_message ext w uid_validity uid_last =
     bytes_of (pseudo_from_line ext w @ ''Date: '' @ pseudo_date ext w @ [CHR 0x0A] @
               ''From: Mail System Internal Data <MAILER-DAEMON@'' @ my_hostname ext w @ ''>'' @ [CHR 0x0A] @
               ''Subject: DON'' @ [CHR 0x27] @ ''T DELETE THIS MESSAGE -- FOLDER INTERNAL DATA'' @ [CHR 0x0A] @
               ''Message-ID: <'' @ pseudo_time ext w @ ''@'' @ my_hostname ext w @ ''>'' @ [CHR 0x0A] @
               ''X-IMAP: '') @
     printf_u uid_validity @ bytes_of '' '' @ printf_010u uid_last @
     bytes_of ([CHR 0x0A] @ ''Status: RO'' @ [CHR 0x0A] @ [CHR 0x0A] @ PSEUDO_MESSAGE_BODY @ [CHR 0x0A])"

definition mbox_write_pseudo ::
  "'w ext \<Rightarrow> 'w mbox_sync_context \<Rightarrow> (int \<times> 'w mbox_sync_context) option" where
  "mbox_write_pseudo ext ctx =
     (if \<not> (write_fd ctx \<noteq> - 1) then None
      else
        let uid_validity = (if base_uid_validity ctx \<noteq> 0 then base_uid_validity ctx
                            else hdr_uid_validity (hdr ctx))
        in if \<not> (uid_validity \<noteq> 0) then None
           else
             let str = pseudo_message ext (world ctx) uid_validity (next_uid ctx - 1);
                 (wr, e, w1) = pwrite_full ext (world ctx) (write_fd ctx) str 0;
                 ctx1 = log_event (Pwrite (write_fd ctx) 0 str) (ctx\<lparr>world := w1\<rparr>);
                 done = (\<lambda>c. Some (0, c\<lparr>base_uid_last_offset := 0, base_uid_last := next_uid c - 1\<rparr>))
             in if wr < 0 then
                  (if \<not> ENOSPACE e then Some (- 1, log_event (Syscall_error ''pwrite_full()'') ctx1)
                   else
                     let (tr, w2) = ftruncate ext (world ctx1) (write_fd ctx1) 0;
                         ctx2 = log_event (Ftruncate (write_fd ctx1) 0) (ctx1\<lparr>world := w2\<rparr>)
                     in if tr < 0 then done (log_event (Syscall_error ''ftruncate()'') ctx2)
                        else done ctx2)
                else done ctx1)"

subsection \<open>Finalisation\<close>

text \<open>
  \<^verbatim>\<open>mbox_sync_handle_eof_updates\<close>, first block (\<^verbatim>\<open>if (sync_ctx->need_space_seq != 0)\<close>):
  the file is grown and the window rewritten. \<open>file_size\<close> is the size \<^verbatim>\<open>i_stream_stat\<close>
  reported.
\<close>

definition mbox_sync_handle_eof_grow ::
  "'w ext \<Rightarrow> 'w mbox_sync_context \<Rightarrow> mbox_sync_mail_context \<Rightarrow> uoff_t \<Rightarrow>
   (int \<times> 'w mbox_sync_context) option" where
  "mbox_sync_handle_eof_grow ext ctx mail_ctx file_size =
     (if \<not> (need_space_seq ctx \<noteq> 0) then Some (0, ctx)
      else if \<not> (write_fd ctx \<noteq> - 1) then None
      else if \<not> (space_diff ctx <s 0) then None
      else
        let padding = ucast (MBOX_HEADER_PADDING ext * (seq ctx - need_space_seq ctx + 1)) :: uoff_t;
            ctx1 = ctx\<lparr>space_diff := space_diff ctx - padding\<rparr>
        in if \<not> (expunged_space ctx1 \<le>s - space_diff ctx1) then None
           else
             let ctx2 = ctx1\<lparr>space_diff := space_diff ctx1 + expunged_space ctx1, expunged_space := 0\<rparr>;
                 ctx3 = (if have_eoh mail_ctx \<and> \<not> updated mail_ctx
                         then ctx2\<lparr>header := header ctx2 @ [10]\<rparr> else ctx2)
             in if \<not> (space_diff ctx3 <s 0) then None
                else
                  let (sr, w1) = file_set_size ext (world ctx3) (write_fd ctx3) (file_size + - space_diff ctx3);
                      ctx4 = log_event (File_set_size (write_fd ctx3) (file_size + - space_diff ctx3))
                               (ctx3\<lparr>world := w1\<rparr>)
                  in if sr < 0 then
                       (let ctx5 = log_event (Syscall_error ''file_set_size()'') ctx4;
                            (tr, w2) = ftruncate ext (world ctx5) (write_fd ctx5) file_size;
                            ctx6 = log_event (Ftruncate (write_fd ctx5) file_size) (ctx5\<lparr>world := w2\<rparr>)
                        in if tr < 0 then Some (- 1, log_event (Syscall_error ''ftruncate()'') ctx6)
                           else Some (- 1, ctx6))
                     else
                       let ctx5 = ctx4\<lparr>world := input_sync ext (world ctx4)\<rparr>;
                           (rr, ctx6', m6) =
                             mbox_sync_rewrite ext ctx5 (Some mail_ctx) file_size (- space_diff ctx5) padding
                               (need_space_seq ctx5) (seq ctx5);
                           ctx6 = log_event (Rewrite file_size (- space_diff ctx5) padding
                                               (need_space_seq ctx5) (seq ctx5))
                                    (keep_trace ctx5 ctx6')
                       in if rr < 0 then Some (- 1, ctx6)
                          else Some (0, (update_from_offsets ext ctx6)\<lparr>need_space_seq := 0, mails := []\<rparr>))"

text \<open>
  Second block (\<^verbatim>\<open>if (sync_ctx->expunged_space > 0)\<close>): the trailer is copied back and the
  file truncated.
\<close>

definition mbox_sync_handle_eof_shrink ::
  "'w ext \<Rightarrow> 'w mbox_sync_context \<Rightarrow> uoff_t \<Rightarrow> (int \<times> 'w mbox_sync_context) option" where
  "mbox_sync_handle_eof_shrink ext ctx trailer_size0 =
     (if \<not> (0 <s expunged_space ctx) then Some (0, ctx)
      else if \<not> (write_fd ctx \<noteq> - 1) then None
      else
        let (st, w1) = file_input_stat ext (world ctx) True;
            ctx1 = ctx\<lparr>world := w1\<rparr>
        in case st of
             None \<Rightarrow> Some (- 1, log_event (Syscall_error ''i_stream_stat()'') ctx1)
           | Some s \<Rightarrow>
               (let file_size = st_size s;
                    trailer_size = (if file_size = expunged_space ctx1 then 0 else trailer_size0)
                in if \<not> (file_size \<ge> expunged_space ctx1 + trailer_size) then None
                   else
                     let off = file_size - expunged_space ctx1 - trailer_size in
                     if \<not> (off = 0 \<or> off > 31) then None
                     else
                       let (mr, ctx2') = mbox_move ext ctx1 off (off + expunged_space ctx1) trailer_size;
                           ctx2 = log_event (Mbox_move off (off + expunged_space ctx1) trailer_size)
                                    (keep_trace ctx1 ctx2')
                       in if mr < 0 then Some (- 1, ctx2)
                          else
                            let (tr, w3) = ftruncate ext (world ctx2) (write_fd ctx2) (off + trailer_size);
                                ctx3 = log_event (Ftruncate (write_fd ctx2) (off + trailer_size)) (ctx2\<lparr>world := w3\<rparr>)
                            in if tr < 0 then Some (- 1, log_event (Syscall_error ''ftruncate()'') ctx3)
                               else
                                 (case (if off = 0 then mbox_write_pseudo ext ctx3 else Some (0, ctx3)) of
                                    None \<Rightarrow> None
                                  | Some (pr, ctx4) \<Rightarrow>
                                      if pr < 0 then Some (- 1, ctx4)
                                      else Some (0, ctx4\<lparr>expunged_space := 0,
                                                        world := input_sync ext (world ctx4)\<rparr>))))"

definition mbox_sync_handle_eof_updates ::
  "'w ext \<Rightarrow> 'w mbox_sync_context \<Rightarrow> mbox_sync_mail_context \<Rightarrow>
   (int \<times> 'w mbox_sync_context) option" where
  "mbox_sync_handle_eof_updates ext ctx mail_ctx =
     (if \<not> istream_raw_mbox_is_eof ext (world ctx) then
        (if \<not> (need_space_seq ctx = 0) then None
         else if \<not> (expunged_space ctx = 0) then None
         else Some (0, ctx))
      else
        let (st, w1) = file_input_stat ext (file_input_sync ext (world ctx)) True;
            ctx1 = ctx\<lparr>world := w1\<rparr>
        in case st of
             None \<Rightarrow> Some (- 1, log_event (Syscall_error ''i_stream_stat()'') ctx1)
           | Some s \<Rightarrow>
               (let file_size = st_size s in
                if file_size < file_input_v_offset ext (world ctx1)
                then Some (- 1, log_event (Critical ''file size unexpectedly shrinked in mbox file'') ctx1)
                else
                  let trailer_size = file_size - file_input_v_offset ext (world ctx1) in
                  if \<not> (trailer_size \<le> 2) then None
                  else
                    (case mbox_sync_handle_eof_grow ext ctx1 mail_ctx file_size of
                       None \<Rightarrow> None
                     | Some (gr, ctx2) \<Rightarrow>
                         if gr < 0 then Some (- 1, ctx2)
                         else mbox_sync_handle_eof_shrink ext ctx2 trailer_size)))"


text \<open>
  The \<^verbatim>\<open>while (sync_ctx->orig_mtime == st->st_mtime)\<close> loop of
  \<^verbatim>\<open>mbox_sync_update_index_header\<close>, which sleeps until the file's mtime changes.
\<close>

partial_function (option) mtime_bump_loop ::
  "'w ext \<Rightarrow> 'w mbox_sync_context \<Rightarrow> stat \<Rightarrow> (int \<times> 'w mbox_sync_context \<times> stat) option" where
  "mtime_bump_loop ext ctx st =
     (if orig_mtime ctx = st_mtime st then
        (case utime ext (usleep ext (world ctx) 500000) of
           (ur, w1) \<Rightarrow>
             if ur < 0
             then Some (- 1, log_event (Syscall_error ''utime()'') (log_event Utime (ctx\<lparr>world := w1\<rparr>)), st)
             else (case file_input_stat ext w1 False of
                     (st', w2) \<Rightarrow>
                       (case st' of
                          None \<Rightarrow> Some (- 1, log_event (Syscall_error ''i_stream_stat()'')
                                                (log_event Utime (ctx\<lparr>world := w2\<rparr>)), st)
                        | Some s \<Rightarrow> mtime_bump_loop ext (log_event Utime (ctx\<lparr>world := w2\<rparr>)) s)))
      else Some (0, ctx, st))"

definition mbox_sync_update_index_header ::
  "'w ext \<Rightarrow> 'w mbox_sync_context \<Rightarrow> (int \<times> 'w mbox_sync_context) option" where
  "mbox_sync_update_index_header ext ctx =
     (let (st0, w1) = file_input_stat ext (world ctx) False;
          ctx1 = ctx\<lparr>world := w1\<rparr>
      in case st0 of
           None \<Rightarrow> Some (- 1, log_event (Syscall_error ''i_stream_stat()'') ctx1)
         | Some s0 \<Rightarrow>
             (case (if moved_offsets ctx1 \<and>
                       (st_size s0 = hdr_sync_size (hdr ctx1) \<or> st_size s0 = orig_size ctx1)
                    then mtime_bump_loop ext ctx1 s0 else Some (0, ctx1, s0)) of
                None \<Rightarrow> None
              | Some (br, ctx2, st) \<Rightarrow>
                  if br < 0 then Some (- 1, ctx2)
                  else if \<not> (base_uid_validity ctx2 \<noteq> 0 \<or> st_size st = 0) then None
                  else
                    let ctx3 =
                          (if base_uid_validity ctx2 \<noteq> hdr_uid_validity (hdr ctx2) \<or> base_uid_validity ctx2 = 0
                           then
                             (let c = (if base_uid_validity ctx2 = 0
                                       then ctx2\<lparr>base_uid_validity :=
                                              (if hdr_uid_validity (hdr ctx2) \<noteq> 0 then hdr_uid_validity (hdr ctx2)
                                               else ucast (ioloop_time ext (world ctx2)))\<rparr>
                                       else ctx2)
                              in index_do (Index_update_header_uid_validity (base_uid_validity c)) c)
                           else ctx2)
                    in if istream_raw_mbox_is_eof ext (world ctx3) \<and> next_uid ctx3 \<noteq> hdr_next_uid (hdr ctx3) \<and>
                          \<not> (next_uid ctx3 \<noteq> 0)
                       then None
                       else
                         let ctx4 = (if istream_raw_mbox_is_eof ext (world ctx3) \<and>
                                        next_uid ctx3 \<noteq> hdr_next_uid (hdr ctx3)
                                     then index_do (Index_update_header_next_uid (next_uid ctx3)) ctx3 else ctx3);
                             ctx5 = (if ucast (st_mtime st) \<noteq> hdr_sync_stamp (hdr ctx4) \<and>
                                        \<not> mbox_sync_dirty (mbox ctx4)
                                     then index_do (Index_update_header_sync_stamp (ucast (st_mtime st))) ctx4
                                     else ctx4);
                             ctx6 = (if st_size st \<noteq> hdr_sync_size (hdr ctx5) \<and> \<not> mbox_sync_dirty (mbox ctx5)
                                     then index_do (Index_update_header_sync_size (st_size st)) ctx5 else ctx5)
                         in Some (0, ctx6\<lparr>mbox := (mbox ctx6)\<lparr>mbox_dirty_stamp := st_mtime st,
                                                                  mbox_dirty_size := st_size st\<rparr>\<rparr>)))"

subsection \<open>The driver\<close>

definition mbox_sync_restart :: "'w mbox_sync_context \<Rightarrow> 'w mbox_sync_context" where
  "mbox_sync_restart ctx =
     ctx\<lparr>base_uid_validity := 0, base_uid_last := 0, base_uid_last_offset := 0,
         mails := [], syncs := [], sync_rec := zero_sync_rec,
         index_sync_ctx := map_option (\<lambda>_. index_sync_all ctx) (index_sync_ctx ctx),
         prev_msg_uid := 0, next_uid := hdr_next_uid (hdr ctx), idx_next_uid := hdr_next_uid (hdr ctx),
         seq := 0, idx_seq := 1, need_space_seq := 0, expunged_space := 0, space_diff := 0,
         dest_first_mail := True\<rparr>"

text \<open>
  The \<^verbatim>\<open>for (i = 0; i < 3; i++)\<close> loop of \<^verbatim>\<open>mbox_sync_do\<close>. The result is \<open>Return\<close>
  where the function returns from inside the loop, \<open>Break\<close> where the loop is left (by
  \<^verbatim>\<open>break\<close> or when \<open>i\<close> reaches 3).
\<close>

function mbox_sync_do_loop ::
  "'w ext \<Rightarrow> nat \<Rightarrow> 'w mbox_sync_context \<Rightarrow> mbox_sync_mail_context \<Rightarrow> bool \<Rightarrow>
   ('w mbox_sync_context \<times> mbox_sync_mail_context) flow option" where
  "mbox_sync_do_loop ext i ctx mail_ctx partial_arg =
     (if i < 3 then
        (case mbox_sync_loop ext ctx mail_ctx partial_arg of
           None \<Rightarrow> None
         | Some (ret, ctx1, m1) \<Rightarrow>
             if ret > 0 then Some (Break (ctx1, m1))
             else if ret < 0 then Some (Return (- 1) (ctx1, m1))
             else if \<not> mbox_sync_dirty (mbox ctx1) then None
             else mbox_sync_do_loop ext (i + 1)
                    (log_event Transaction_begin
                       ((log_event Transaction_rollback (mbox_sync_restart ctx1))\<lparr>trans := Some []\<rparr>))
                    m1 False)
      else Some (Break (ctx, mail_ctx)))"
  by pat_completeness auto
termination
  by (relation "measure (\<lambda>(ext, i, ctx, mail_ctx, partial_arg). 3 - i)") auto

declare mbox_sync_do_loop.simps [simp del]

text \<open>
  \<^verbatim>\<open>mbox_sync_do\<close>. \<open>mail_ctx0\<close> is the local \<^verbatim>\<open>mail_ctx\<close>, which the source does not
  initialise.
\<close>

definition mbox_sync_do ::
  "'w ext \<Rightarrow> 'w mbox_sync_context \<Rightarrow> mbox_sync_flag set \<Rightarrow> mbox_sync_mail_context \<Rightarrow>
   (int \<times> 'w mbox_sync_context) option" where
  "mbox_sync_do ext ctx flags_arg mail_ctx0 =
     (let (st0, w1) = file_input_stat ext (world ctx) False;
          ctx1 = ctx\<lparr>world := w1\<rparr>
      in case st0 of
           None \<Rightarrow> Some (- 1, log_event (Syscall_error ''i_stream_stat()'') ctx1)
         | Some st \<Rightarrow>
             (let ctx2 = ctx1\<lparr>orig_size := st_size st, orig_mtime := st_mtime st\<rparr>;
                  (partial0, dirty0) =
                    (if MBOX_SYNC_FORCE_SYNC \<in> flags_arg then (False, True)
                     else if ucast (st_mtime st) = hdr_sync_stamp (hdr ctx2) \<and>
                             st_size st = hdr_sync_size (hdr ctx2) then (True, False)
                     else if MBOX_SYNC_UNDIRTY \<in> flags_arg \<or> st_size st = hdr_sync_size (hdr ctx2)
                     then (False, True)
                     else (True, True));
                  ctx3 = mbox_sync_restart (ctx2\<lparr>mbox := (mbox ctx2)\<lparr>mbox_sync_dirty := dirty0\<rparr>\<rparr>)
              in case mbox_sync_do_loop ext 0 ctx3 mail_ctx0 partial0 of
                   None \<Rightarrow> None
                 | Some (Return v (c, m)) \<Rightarrow> Some (v, c)
                 | Some (Continue (c, m)) \<Rightarrow> None
                 | Some (Break (c, m)) \<Rightarrow>
                     (case mbox_sync_handle_eof_updates ext c m of
                        None \<Rightarrow> None
                      | Some (er, c1) \<Rightarrow>
                          if er < 0 then Some (- 1, c1)
                          else
                            (case mbox_sync_update_index_header ext (c1\<lparr>syncs := [], sync_rec := zero_sync_rec\<rparr>) of
                               None \<Rightarrow> None
                             | Some (hr, c2) \<Rightarrow> if hr < 0 then Some (- 1, c2) else Some (0, c2)))))"


text \<open>
  Before and after the sync context exists, \<^verbatim>\<open>mbox_sync\<close> works on the mailbox, the
  world and the trace.
\<close>

record 'w driver_state =
  d_mbox :: mbox_mailbox
  d_world :: 'w
  d_trace :: "event list"

definition d_log :: "event \<Rightarrow> 'w driver_state \<Rightarrow> 'w driver_state" where
  "d_log e d = d\<lparr>d_trace := d_trace d @ [e]\<rparr>"

definition driver_of :: "'w mbox_sync_context \<Rightarrow> 'w driver_state" where
  "driver_of ctx = \<lparr>d_mbox = mbox ctx, d_world = world ctx, d_trace = trace ctx\<rparr>"

definition mbox_sync_has_changed ::
  "'w ext \<Rightarrow> 'w driver_state \<Rightarrow> bool \<Rightarrow> int \<times> 'w driver_state" where
  "mbox_sync_has_changed ext d leave_dirty =
     (let read_only_stream = (mbox_file_stream_open (d_mbox d) \<and> mbox_fd (d_mbox d) = - 1);
          (st0, w1) = (if read_only_stream then file_input_stat ext (d_world d) False
                       else (stat_path ext (d_world d), d_world d));
          d1 = d\<lparr>d_world := w1\<rparr>
      in case st0 of
           None \<Rightarrow> (- 1, d_log (Syscall_error (if read_only_stream then ''i_stream_stat()'' else ''stat()'')) d1)
         | Some st \<Rightarrow>
             (let h = mail_index_get_header ext (d_world d1) in
              if ucast (st_mtime st) = hdr_sync_stamp h \<and> st_size st = hdr_sync_size h
              then (0, d1\<lparr>d_mbox := (d_mbox d1)\<lparr>mbox_sync_dirty := False\<rparr>\<rparr>)
              else if \<not> mbox_sync_dirty (d_mbox d1) \<or> \<not> leave_dirty
              then (1, d1\<lparr>d_mbox := (d_mbox d1)\<lparr>mbox_sync_dirty := True\<rparr>\<rparr>)
              else (if st_mtime st \<noteq> mbox_dirty_stamp (d_mbox d1) \<or> st_size st \<noteq> mbox_dirty_size (d_mbox d1)
                    then 1 else 0, d1)))"

definition mbox_sync_context_free :: "'w mbox_sync_context \<Rightarrow> 'w mbox_sync_context" where
  "mbox_sync_context_free ctx =
     (let ctx1 = (if trans ctx \<noteq> None then (log_event Transaction_rollback ctx)\<lparr>trans := None\<rparr> else ctx)
      in if index_sync_ctx ctx1 \<noteq> None then (log_event Sync_rollback ctx1)\<lparr>index_sync_ctx := None\<rparr>
         else ctx1)"

text \<open>\<^verbatim>\<open>mbox_lock\<close> and \<^verbatim>\<open>mbox_unlock\<close>, with the trace of the locks taken and given back.\<close>

definition do_lock ::
  "'w ext \<Rightarrow> 'w driver_state \<Rightarrow> lock_type \<Rightarrow> int \<times> nat \<times> 'w driver_state" where
  "do_lock ext d lt =
     (let (r, lock_id, mb, w) = mbox_lock ext (d_world d) (d_mbox d) lt;
          d1 = d\<lparr>d_mbox := mb, d_world := w\<rparr>
      in (r, lock_id, if r \<le> 0 then d1 else d_log (Lock lt lock_id) d1))"

definition do_unlock :: "'w ext \<Rightarrow> 'w driver_state \<Rightarrow> nat \<Rightarrow> int \<times> 'w driver_state" where
  "do_unlock ext d lock_id =
     (let (r, mb, w) = mbox_unlock ext (d_world d) (d_mbox d) lock_id
      in (r, d_log (Unlock lock_id) (d\<lparr>d_mbox := mb, d_world := w\<rparr>)))"

text \<open>The label \<^verbatim>\<open>__nothing_to_do\<close> of \<^verbatim>\<open>mbox_sync\<close>.\<close>

definition mbox_sync_nothing_to_do :: "'w ext \<Rightarrow> 'w driver_state \<Rightarrow> nat \<Rightarrow> int \<times> 'w driver_state" where
  "mbox_sync_nothing_to_do ext d lock_id =
     (let d1 = (if lock_id \<noteq> 0 then snd (do_unlock ext d lock_id) else d);
          (cr, w) = mail_index_sync_commit ext (d_world d1);
          d2 = d_log Sync_commit (d1\<lparr>d_world := w\<rparr>)
      in if cr < 0 then (- 1, d_log Index_error d2) else (0, d2))"

text \<open>The context \<^verbatim>\<open>mbox_sync\<close> builds after \<^verbatim>\<open>memset(&sync_ctx, 0, sizeof(sync_ctx))\<close>.\<close>

definition new_sync_context ::
  "'w ext \<Rightarrow> 'w driver_state \<Rightarrow> sync_next_item list \<Rightarrow> mbox_sync_flag set \<Rightarrow> bool \<Rightarrow>
   'w mbox_sync_context" where
  "new_sync_context ext d q flags_arg delay_writes_arg =
     \<lparr>mbox = d_mbox d, sync_flags = flags_arg, write_fd = 0,
      index_sync_ctx = Some q, index_sync_all = q, trans = Some [],
      hdr = mail_index_get_header ext (d_world d), header = [], from_line = [],
      base_uid_validity = 0, base_uid_last = 0, base_uid_last_offset = 0,
      prev_msg_uid = 0, next_uid = 0, idx_next_uid = 0, seq = 0, idx_seq = 0, need_space_seq = 0,
      expunged_space = 0, space_diff = 0, mails = [], syncs = [], sync_rec = zero_sync_rec,
      orig_size = 0, orig_mtime = 0, dest_first_mail = False, first_mail_crlf_expunged = False,
      moved_offsets = False, renumber_uids = False,
      delay_writes = (delay_writes_arg \<or> mbox_readonly (d_mbox d)),
      world = d_world d, trace = d_trace d @ [Transaction_begin]\<rparr>"

text \<open>
  The end of \<^verbatim>\<open>mbox_sync\<close>, from \<^verbatim>\<open>mbox_file_open_stream\<close> on: the sync itself, the
  commit or rollback, the uid-last rewrite and the unlocking.
\<close>

definition mbox_sync_run ::
  "'w ext \<Rightarrow> 'w mbox_sync_context \<Rightarrow> mbox_sync_flag set \<Rightarrow> mbox_sync_mail_context \<Rightarrow> nat \<Rightarrow>
   (int \<times> 'w driver_state) option" where
  "mbox_sync_run ext ctx flags_arg mail_ctx0 lock_id =
     (let (orr, mb, w) = mbox_file_open_stream ext (world ctx) (mbox ctx);
          ctx1 = ctx\<lparr>mbox := mb, world := w\<rparr>
      in if orr < 0
         then Some (- 1, snd (do_unlock ext (driver_of (mbox_sync_context_free ctx1)) lock_id))
         else
           case mbox_sync_do ext
                  (ctx1\<lparr>write_fd := (if mbox_lock_type (mbox ctx1) \<noteq> F_WRLCK then - 1 else mbox_fd (mbox ctx1))\<rparr>)
                  flags_arg mail_ctx0 of
             None \<Rightarrow> None
           | Some (ret0, ctx2) \<Rightarrow>
               (let (ret1, ctx3) =
                      (if ret0 < 0 then (ret0, (log_event Transaction_rollback ctx2)\<lparr>trans := None\<rparr>)
                       else
                         let (cr, w3) = mail_index_transaction_commit ext (world ctx2)
                                          (case trans ctx2 of None \<Rightarrow> [] | Some ops \<Rightarrow> ops);
                             c = (log_event Transaction_commit (ctx2\<lparr>world := w3\<rparr>))\<lparr>trans := None\<rparr>
                         in if cr < 0 then (- 1, log_event Index_error c)
                            else (ret0, c\<lparr>mbox := (mbox c)\<lparr>commit_log_file_seq := 0,
                                                            commit_log_file_offset := 0\<rparr>\<rparr>));
                    (ret2, ctx4) =
                      (if ret1 < 0 then (ret1, (log_event Sync_rollback ctx3)\<lparr>index_sync_ctx := None\<rparr>)
                       else
                         let (cr, w4) = mail_index_sync_commit ext (world ctx3);
                             c = (log_event Sync_commit (ctx3\<lparr>world := w4\<rparr>))\<lparr>index_sync_ctx := None\<rparr>
                         in if cr < 0 then (- 1, log_event Index_error c) else (ret1, c))
                in case (if base_uid_last ctx4 \<noteq> next_uid ctx4 - 1 \<and> ret2 = 0 \<and> \<not> delay_writes ctx4 \<and>
                            base_uid_last_offset ctx4 \<noteq> 0
                         then mbox_rewrite_base_uid_last ext ctx4 else Some (ret2, ctx4)) of
                     None \<Rightarrow> None
                   | Some (ret3, ctx5) \<Rightarrow>
                       if \<not> (lock_id \<noteq> 0) then None
                       else
                         let d5 = driver_of ctx5;
                             (ret4, lock_id4, d6) =
                               (if mbox_lock_type (d_mbox d5) \<noteq> F_RDLCK then
                                  (let (lr, read_lock_id, dl) = do_lock ext d5 F_RDLCK in
                                   if lr \<le> 0 then (- 1, lock_id, dl)
                                   else (let (ur, du) = do_unlock ext dl lock_id in
                                         (if ur < 0 then - 1 else ret3, read_lock_id, du)))
                                else (ret3, lock_id, d5));
                             (ret5, d7) =
                               (if MBOX_SYNC_LOCK_READING \<notin> flags_arg then
                                  (let (ur, du) = do_unlock ext d6 lock_id4 in
                                   (if ur < 0 then - 1 else ret4, du))
                                else (ret4, d6));
                             ctx6 = mbox_sync_context_free
                                      (ctx5\<lparr>mbox := d_mbox d7, world := d_world d7, trace := d_trace d7\<rparr>)
                         in Some (ret5, driver_of ctx6)))"

text \<open>
  \<^verbatim>\<open>mbox_sync\<close> from the label \<^verbatim>\<open>__again\<close> on; \<^verbatim>\<open>goto __again\<close> is the recursive
  call. \<open>changed\<close> and \<open>lock_id\<close> are the locals of that name.
  \<^verbatim>\<open>mail_index_sync_have_more\<close> holds when the stream of sync records is not empty.
\<close>

partial_function (option) mbox_sync_again ::
  "'w ext \<Rightarrow> mbox_sync_flag set \<Rightarrow> bool \<Rightarrow> mbox_sync_mail_context \<Rightarrow> int \<Rightarrow> nat \<Rightarrow>
   'w driver_state \<Rightarrow> (int \<times> 'w driver_state) option" where
  "mbox_sync_again ext flags_arg delay_writes_arg mail_ctx0 changed lock_id0 d0 =
     (case (if changed \<noteq> 0
            then do_lock ext d0 (if mbox_readonly (d_mbox d0) then F_RDLCK else F_WRLCK)
            else (1, lock_id0, d0)) of
        (lr, lock_id, d1) \<Rightarrow>
          if lr \<le> 0 then Some (- 1, d1)
          else
            (case mail_index_sync_begin ext (d_world d1) of
               (br, q, w2) \<Rightarrow>
                 if br \<le> 0 then
                   (let d2 = (if br < 0 then d_log Index_error (d1\<lparr>d_world := w2\<rparr>) else d1\<lparr>d_world := w2\<rparr>)
                    in Some (br, if lock_id \<noteq> 0 then snd (do_unlock ext d2 lock_id) else d2))
                 else
                   (let d2 = d_log Sync_begin (d1\<lparr>d_world := w2\<rparr>) in
                    if changed = 0 \<and> q = [] then Some (mbox_sync_nothing_to_do ext d2 lock_id)
                    else
                      (case (if changed = 0 \<and> delay_writes_arg
                             then mbox_sync_read_index_syncs ext
                                    (new_sync_context ext d2 q flags_arg delay_writes_arg) 1
                             else Some (0, new_sync_context ext d2 q flags_arg delay_writes_arg, False)) of
                         None \<Rightarrow> None
                       | Some (sr, ctx1, e) \<Rightarrow>
                           if sr < 0 then Some (- 1, driver_of ctx1)
                           else if changed = 0 \<and> delay_writes_arg \<and> uid1 (sync_rec ctx1) = 0 then
                             (case mail_index_transaction_commit ext (world ctx1)
                                     (case trans ctx1 of None \<Rightarrow> [] | Some ops \<Rightarrow> ops) of
                                (cr, w3) \<Rightarrow>
                                  (let ctx2 = (log_event Transaction_commit (ctx1\<lparr>world := w3\<rparr>))\<lparr>trans := None\<rparr> in
                                   if cr < 0 then
                                     (let d3 = driver_of (mbox_sync_context_free (log_event Index_error ctx2))
                                      in Some (- 1, if lock_id \<noteq> 0 then snd (do_unlock ext d3 lock_id) else d3))
                                   else Some (mbox_sync_nothing_to_do ext
                                                (driver_of (mbox_sync_context_free (ctx2\<lparr>index_sync_ctx := None\<rparr>)))
                                                lock_id)))
                           else if lock_id = 0
                           then mbox_sync_again ext flags_arg delay_writes_arg mail_ctx0 1 lock_id
                                  (driver_of (mbox_sync_context_free ctx1))
                           else mbox_sync_run ext ctx1 flags_arg mail_ctx0 lock_id))))"

definition mbox_sync ::
  "'w ext \<Rightarrow> 'w driver_state \<Rightarrow> mbox_sync_flag set \<Rightarrow> mbox_sync_mail_context \<Rightarrow>
   (int \<times> 'w driver_state) option" where
  "mbox_sync ext d flags0 mail_ctx0 =
     (let delay_writes_arg = (mbox_readonly (d_mbox d) \<or>
                              (MBOX_SYNC_REWRITE \<notin> flags0 \<and> getenv_MBOX_LAZY_WRITES ext (d_world d)));
          d1 = d\<lparr>d_mbox := (d_mbox d)\<lparr>sync_last_check := ioloop_time ext (d_world d)\<rparr>\<rparr>;
          flags1 = (if \<not> mbox_do_dirty_syncs (d_mbox d1) then insert MBOX_SYNC_UNDIRTY flags0 else flags0);
          (lr, lock_id, d2) = (if MBOX_SYNC_LOCK_READING \<in> flags1 then do_lock ext d1 F_RDLCK
                               else (1, 0, d1))
      in if lr \<le> 0 then Some (- 1, d2)
         else
           let (changed, d3) =
                 (if MBOX_SYNC_HEADER \<in> flags1 \<or> MBOX_SYNC_FORCE_SYNC \<in> flags1 then (1, d2)
                  else mbox_sync_has_changed ext d2 (MBOX_SYNC_UNDIRTY \<notin> flags1))
           in if changed < 0
              then Some (- 1, if MBOX_SYNC_LOCK_READING \<in> flags1 then snd (do_unlock ext d3 lock_id) else d3)
              else if MBOX_SYNC_LOCK_READING \<in> flags1 \<and> changed = 0 then Some (0, d3)
              else
                let d4 = (if MBOX_SYNC_LOCK_READING \<in> flags1 then snd (do_unlock ext d3 lock_id) else d3);
                    (mb, w5) = mbox_file_close_stream ext (d_world d4) (d_mbox d4)
                in mbox_sync_again ext flags1 delay_writes_arg mail_ctx0 changed 0
                     (d4\<lparr>d_mbox := mb, d_world := w5\<rparr>))"

subsection \<open>Reading the trace\<close>

text \<open>The locks still held after a trace, and whether an index transaction is still open.\<close>

fun held_locks :: "event list \<Rightarrow> nat list \<Rightarrow> nat list" where
  "held_locks [] held = held"
| "held_locks (Lock lt lock_id # es) held = held_locks es (held @ [lock_id])"
| "held_locks (Unlock lock_id # es) held = held_locks es (remove1 lock_id held)"
| "held_locks (e # es) held = held_locks es held"

fun transaction_open :: "event list \<Rightarrow> bool \<Rightarrow> bool" where
  "transaction_open [] is_open = is_open"
| "transaction_open (Transaction_begin # es) is_open = transaction_open es True"
| "transaction_open (Transaction_commit # es) is_open = transaction_open es False"
| "transaction_open (Transaction_rollback # es) is_open = transaction_open es False"
| "transaction_open (e # es) is_open = transaction_open es is_open"


section \<open>A small mailbox to run the engine on\<close>

text \<open>
  Concrete collaborators, used to run the model: the world is the position of the raw
  stream in a list \<open>ms\<close> of messages as the parser reports them, \<open>idx\<close> is the index
  view, and \<open>bv\<close> is the UID validity that the pseudo message's X-IMAPbase header carries.
\<close>

definition ex_mbox :: mbox_mailbox where
  "ex_mbox = \<lparr>mbox_readonly = False, mbox_sync_dirty = False, mbox_save_md5 = False,
     mbox_do_dirty_syncs = True, mbox_dirty_stamp = 0, mbox_dirty_size = 0,
     mbox_lock_type = F_UNLCK, mbox_fd = 3, mbox_file_stream_open = False, keep_recent = True,
     sync_last_check = 0, commit_log_file_seq = 0, commit_log_file_offset = 0\<rparr>"

definition ex_hdr :: mail_index_header where
  "ex_hdr = \<lparr>hdr_uid_validity = 7, hdr_next_uid = 10, hdr_sync_stamp = 0, hdr_sync_size = 0\<rparr>"

definition ex_stat :: stat where
  "ex_stat = \<lparr>st_size = 1000, st_mtime = 50\<rparr>"

definition ex_msg :: "mbox_sync_mail_context list \<Rightarrow> nat \<Rightarrow> mbox_sync_mail_context" where
  "ex_msg ms w = (if w < length ms then ms ! w else zero_mail_ctx)"

definition ex_ext :: "uint32 \<Rightarrow> mbox_sync_mail_context list \<Rightarrow> mail_index_record list \<Rightarrow> nat ext" where
  "ex_ext bv ms idx =
    \<lparr>MBOX_HEADER_PADDING = 64, MAIL_RECENT = 0x20, MAIL_FLAGS_MASK = 0x3F,
     MAIL_INDEX_MAIL_FLAG_DIRTY = 0x80, MBOX_EXPUNGED = 0x40,
     istream_raw_mbox_seek =
       (\<lambda>w off. (0, if off = 0 then 0 else length (filter (\<lambda>m. from_offset (mail m) < off) ms))),
     istream_raw_mbox_get_header_offset = (\<lambda>w. (hdr_offset (ex_msg ms w), w)),
     istream_raw_mbox_get_body_offset = (\<lambda>w. (body_offset (ex_msg ms w), w)),
     istream_raw_mbox_get_start_offset = (\<lambda>w. (from_offset (mail (ex_msg ms w)), w)),
     istream_raw_mbox_get_body_size = (\<lambda>w cl. (body_size (mail (ex_msg ms w)), w)),
     istream_raw_mbox_next = (\<lambda>w bs. w + 1),
     istream_raw_mbox_is_eof = (\<lambda>w. length ms \<le> w),
     istream_raw_mbox_has_crlf_ending = (\<lambda>w. False),
     input_v_offset = (\<lambda>w. body_offset (ex_msg ms w)),
     input_eof = (\<lambda>w. True),
     input_sync = (\<lambda>w. w),
     mbox_sync_parse_next_mail =
       (\<lambda>c m. (if pseudo (ex_msg ms (world c))
                then c\<lparr>base_uid_validity := bv, base_uid_last := 9, base_uid_last_offset := 100\<rparr>
                else c,
                (ex_msg ms (world c))\<lparr>mail_seq := mail_seq m\<rparr>)),
     file_input_seek = (\<lambda>w off. w),
     file_input_get_data = (\<lambda>w. []),
     file_input_skip = (\<lambda>w n. w),
     file_input_read = (\<lambda>w. (- 1, w)),
     file_input_sync = (\<lambda>w. w),
     file_input_stat = (\<lambda>w exact. (Some ex_stat, w)),
     file_input_v_offset = (\<lambda>w. 999),
     pread_full = (\<lambda>w fd n off. (1, bytes_of ''0000000009'', w)),
     pwrite_full = (\<lambda>w fd bs off. (0, EIO, w)),
     ftruncate = (\<lambda>w fd n. (0, w)),
     file_set_size = (\<lambda>w fd n. (0, w)),
     stat_path = (\<lambda>w. Some ex_stat),
     utime = (\<lambda>w. (0, w)),
     usleep = (\<lambda>w n. w),
     ioloop_time = (\<lambda>w. 1000000),
     getenv_MBOX_LAZY_WRITES = (\<lambda>w. False),
     pseudo_from_line = (\<lambda>w. ''From MAILER_DAEMON  Thu Jan  1 00:00:00 1970'' @ [CHR 0x0A]),
     pseudo_date = (\<lambda>w. ''Thu, 01 Jan 1970 00:00:00 +0000''),
     pseudo_time = (\<lambda>w. ''1000000''),
     my_hostname = (\<lambda>w. ''localhost''),
     mbox_sync_update_header = (\<lambda>c m. (c, m)),
     mbox_sync_try_rewrite = (\<lambda>c m d. (1, c, m)),
     mbox_sync_rewrite = (\<lambda>c m e d x s1 s2. (0, c, m)),
     mbox_move = (\<lambda>c d s n. (0, c)),
     mbox_file_seek = (\<lambda>w s. (0, w)),
     mail_index_view_get_messages_count = (\<lambda>w. of_nat (length idx)),
     mail_index_lookup =
       (\<lambda>w s. if 1 \<le> unat s \<and> unat s \<le> length idx then (1, Some (idx ! (unat s - 1))) else (0, None)),
     mail_index_lookup_uid = (\<lambda>w s. (0, 0)),
     mail_index_lookup_uid_range = (\<lambda>w a b. (0, 0, 0)),
     mail_index_lookup_ext_mbox = (\<lambda>w s. (0, None)),
     mail_index_lookup_ext_md5 = (\<lambda>w s. (0, None)),
     mail_index_lookup_keywords = (\<lambda>w s. (0, [])),
     mail_index_append = (\<lambda>ops u. of_nat (length idx) + 1),
     mail_index_sync_flags_apply = (\<lambda>r f. f),
     mail_index_sync_keywords_apply = (\<lambda>r ks. (False, ks)),
     index_keyword_array_cmp = (\<lambda>a b. True),
     mail_index_get_header = (\<lambda>w. ex_hdr),
     mail_index_sync_begin = (\<lambda>w. (1, [], w)),
     mail_index_sync_commit = (\<lambda>w. (0, w)),
     mail_index_transaction_commit = (\<lambda>w ops. (0, w)),
     mbox_lock = (\<lambda>w mb lt. (1, 1, mb\<lparr>mbox_lock_type := lt\<rparr>, w)),
     mbox_unlock = (\<lambda>w mb i. (0, mb, w)),
     mbox_file_close_stream = (\<lambda>w mb. (mb, w)),
     mbox_file_open_stream = (\<lambda>w mb. (0, mb, w))\<rparr>"

definition ex_driver :: "nat driver_state" where
  "ex_driver = \<lparr>d_mbox = ex_mbox, d_world = 0, d_trace = []\<rparr>"

text \<open>A context as \<^verbatim>\<open>mbox_sync\<close> and \<^verbatim>\<open>mbox_sync_restart\<close> set it up, on descriptor 3.\<close>

definition ex_ctx :: "nat mbox_sync_context" where
  "ex_ctx = mbox_sync_restart
              ((new_sync_context (ex_ext 7 [] []) ex_driver [] {} False)\<lparr>write_fd := 3, trace := []\<rparr>)"

text \<open>The pseudo message, a message with UID 3, and a message whose UID is out of order.\<close>

definition ex_pseudo_mail :: mbox_sync_mail_context where
  "ex_pseudo_mail = zero_mail_ctx\<lparr>pseudo := True, hdr_offset := 30, body_offset := 200,
     mail := zero_mail\<lparr>from_offset := 0, offset := 30, body_size := 100\<rparr>\<rparr>"

definition ex_mail3 :: mbox_sync_mail_context where
  "ex_mail3 = zero_mail_ctx\<lparr>hdr_offset := 330, body_offset := 400,
     mail := zero_mail\<lparr>uid := 3, from_offset := 301, offset := 330, body_size := 598\<rparr>\<rparr>"

definition ex_broken_mail :: mbox_sync_mail_context where
  "ex_broken_mail = zero_mail_ctx\<lparr>hdr_offset := 30, body_offset := 100,
     mail := zero_mail\<lparr>uid_broken := True, from_offset := 0, offset := 30, body_size := 899\<rparr>\<rparr>"


text \<open>Inputs for the runs below.\<close>

definition ex_ext_wrapped :: "nat ext" where
  "ex_ext_wrapped = (ex_ext 7 [] [])\<lparr>pread_full := (\<lambda>w fd n off. (1, bytes_of ''4294967297'', w))\<rparr>"

definition ex_ctx_uid_last :: "nat mbox_sync_context" where
  "ex_ctx_uid_last = ex_ctx\<lparr>base_uid_last := 1, base_uid_last_offset := 100, next_uid := 5\<rparr>"

definition ex_ext_enospc :: "nat ext" where
  "ex_ext_enospc = (ex_ext 7 [] [])\<lparr>pwrite_full := (\<lambda>w fd bs off. (- 1, ENOSPC, w))\<rparr>"

definition ex_append_rec :: mail_index_sync_rec where
  "ex_append_rec =
     \<lparr>uid1 = 0xFFFFFFFF, uid2 = 0xFFFFFFFF, type = MAIL_INDEX_SYNC_TYPE_APPEND, sync_data = 0\<rparr>"

definition ex_ctx_append :: "nat mbox_sync_context" where
  "ex_ctx_append = ex_ctx\<lparr>index_sync_ctx := Some [Sync_next_rec ex_append_rec]\<rparr>"



definition ex_ctx_window :: "nat mbox_sync_context" where
  "ex_ctx_window = ex_ctx\<lparr>seq := 1, need_space_seq := 1, space_diff := - 72\<rparr>"

text \<open>
  A mailbox whose index has handed out the last UID, a sync whose stream of sync records
  fails at the first record while the mbox file is unchanged and writes are delayed, and a
  mailbox whose file cannot be examined.
\<close>

definition ex_ctx_no_uids :: "nat mbox_sync_context" where
  "ex_ctx_no_uids = ex_ctx\<lparr>hdr := ex_hdr\<lparr>hdr_next_uid := - 1\<rparr>, next_uid := - 1,
                            mbox := ex_mbox\<lparr>mbox_sync_dirty := True\<rparr>\<rparr>"

text \<open>
  A window of 67108864 messages; a mailbox whose first message has UID 3 and an index
  record, and whose second message has a broken UID, with a pending flag change for UIDs
  3 to 4; and the loop at the message with UID 3, in a mailbox whose index is empty.
\<close>

definition ex_ctx_wide_window :: "nat mbox_sync_context" where
  "ex_ctx_wide_window = ex_ctx\<lparr>seq := 0x04000000, need_space_seq := 1, space_diff := - 72\<rparr>"





definition ex_st_mail3 :: "nat loop_state" where
  "ex_st_mail3 = \<lparr>l_ctx = ex_ctx, l_mail_ctx = ex_mail3\<lparr>mail_seq := 2\<rparr>, l_partial = True,
                   l_skipped_mails = False, l_uids_broken = False\<rparr>"

definition ex_ext_sync_error :: "nat ext" where
  "ex_ext_sync_error =
     (ex_ext 7 [] [])\<lparr>getenv_MBOX_LAZY_WRITES := (\<lambda>w. True),
        mail_index_get_header := (\<lambda>w. ex_hdr\<lparr>hdr_sync_stamp := 50, hdr_sync_size := 1000\<rparr>),
        mail_index_sync_begin := (\<lambda>w. (1, [Sync_next_error], w))\<rparr>"

definition ex_ext_stat_error :: "nat ext" where
  "ex_ext_stat_error = (ex_ext 7 [] [])\<lparr>file_input_stat := (\<lambda>w exact. (None, w))\<rparr>"

section \<open>Notions used in the statements and proofs\<close>

text \<open>The trace of \<open>c'\<close> continues the trace of \<open>c\<close>.\<close>

definition trace_grows :: "'w mbox_sync_context \<Rightarrow> 'w mbox_sync_context \<Rightarrow> bool" where
  "trace_grows c c' = (\<exists>rest. trace c' = trace c @ rest)"


text \<open>
  The padding that \<^verbatim>\<open>mbox_sync_handle_eof_updates\<close> computes for an open window, as the
  source writes it: an unsigned 32-bit product, widened to \<^verbatim>\<open>uoff_t\<close>.
\<close>

definition eof_padding :: "'w ext \<Rightarrow> 'w mbox_sync_context \<Rightarrow> uoff_t" where
  "eof_padding ext c = ucast (MBOX_HEADER_PADDING ext * (seq c - need_space_seq c + 1))"


section \<open>Properties\<close>

lemmas ex_defs = ex_ext_def ex_ctx_def mbox_sync_restart_def new_sync_context_def ex_driver_def
  ex_mbox_def ex_hdr_def ex_stat_def zero_sync_rec_def

subsection \<open>The trace\<close>

lemma trace_grows_refl [simp]: "trace_grows c c"
  by (simp add: trace_grows_def)

lemma trace_log_event [simp]: "trace (log_event e c) = trace c @ [e]"
  by (simp add: log_event_def)

lemma trace_keep_trace [simp]: "trace (keep_trace c c') = trace c"
  by (simp add: keep_trace_def)

lemma trace_index_do [simp]: "trace (index_do op c) = trace c"
  by (simp add: index_do_def)

lemma trace_update_from_offsets_loop [simp]: "trace (update_from_offsets_loop ext ms c) = trace c"
  by (induction ms arbitrary: c) auto

lemma trace_update_from_offsets [simp]: "trace (update_from_offsets ext c) = trace c"
  by (simp add: update_from_offsets_def)

subsection \<open>The expunge handler\<close>

text \<open>
  Claim C7. For an expunged message, \<^verbatim>\<open>mbox_sync_handle_expunge\<close> sets the record's
  offset to its \<open>from_offset\<close> and its space to the span from \<open>from_offset\<close> through header
  and body (\<open>body_offset - from_offset + body_size\<close>), one byte more when the message is the
  first one (\<open>seq = 1\<close>) and two more when that message has a CRLF ending; it adds that
  space to \<open>expunged_space\<close>, and for the first message it sets \<open>base_uid_last_offset\<close>
  to 0 (and leaves it alone otherwise).
\<close>

theorem mbox_sync_handle_expunge_space:
  "offset (mail (snd (mbox_sync_handle_expunge ext ctx mail_ctx))) = from_offset (mail mail_ctx) \<and>
   space (mail (snd (mbox_sync_handle_expunge ext ctx mail_ctx))) =
     body_offset mail_ctx - from_offset (mail mail_ctx) + body_size (mail mail_ctx) +
     (if seq ctx = 1 then (if istream_raw_mbox_has_crlf_ending ext (world ctx) then 2 else 1) else 0) \<and>
   expunged_space (fst (mbox_sync_handle_expunge ext ctx mail_ctx)) =
     expunged_space ctx + space (mail (snd (mbox_sync_handle_expunge ext ctx mail_ctx))) \<and>
   base_uid_last_offset (fst (mbox_sync_handle_expunge ext ctx mail_ctx)) =
     (if seq ctx = 1 then 0 else base_uid_last_offset ctx)"
  by (simp add: mbox_sync_handle_expunge_def Let_def)

subsection \<open>Rewriting the uid-last field\<close>

text \<open>
  Claim C1. Before the uid-last field is rewritten, the 10 bytes at
  \<open>base_uid_last_offset\<close> are read back, and unless they are ASCII digits whose decimal value
  is \<open>base_uid_last\<close> the write must be refused. The source accumulates the value in a
  \<^verbatim>\<open>uint32_t\<close>: here the file holds the digits \<open>4294967297\<close> (that is \<open>2 ^ 32 + 1\<close>)
  where \<open>base_uid_last\<close> is 1, the scan yields 1, the check passes and the field is
  overwritten with \<open>next_uid - 1 = 4\<close>.
\<close>

theorem mbox_rewrite_base_uid_last_wraps:
  "scan_uid_last (bytes_of ''4294967297'') 0 = 1 \<and>
   map_option (\<lambda>(r, c). (r, trace c, base_uid_last c))
     (mbox_rewrite_base_uid_last ex_ext_wrapped ex_ctx_uid_last) =
   Some (0, [Pwrite 3 100 (bytes_of ''0000000004'')], 4)"
  by (simp add: mbox_rewrite_base_uid_last_def ex_ext_wrapped_def ex_ctx_uid_last_def ex_defs
      bytes_of_def printf_010u_def digit_char_def log_event_def Let_def upt_rec)

subsection \<open>Writing the pseudo message\<close>

text \<open>
  Claim C6, as stated: when the write of the pseudo message fails for lack of disk space,
  the file is truncated to zero length and the caller sees an error. The second half does
  not hold: here the write fails with \<open>ENOSPC\<close>, the file is truncated, and
  \<^verbatim>\<open>mbox_write_pseudo\<close> returns 0.
\<close>

theorem mbox_write_pseudo_enospc_returns_0:
  "map_option (\<lambda>(r, c). (r, trace c)) (mbox_write_pseudo ex_ext_enospc ex_ctx) =
   Some (0, [Pwrite 3 0 (pseudo_message ex_ext_enospc 0 7 9), Ftruncate 3 0])"
  by (simp add: mbox_write_pseudo_def ex_ext_enospc_def ex_defs ENOSPACE_def log_event_def Let_def)

text \<open>
  Claim C6, amended. When the write of the pseudo message fails with an out-of-space
  error, \<^verbatim>\<open>mbox_write_pseudo\<close> truncates the file to zero length, records the new
  uid-last and returns 0: the caller sees no error. A write that fails for another reason
  returns \<open>- 1\<close> and nothing is truncated.
\<close>

theorem mbox_write_pseudo_write_failure:
  assumes "write_fd ctx \<noteq> - 1"
    and "(if base_uid_validity ctx \<noteq> 0 then base_uid_validity ctx else hdr_uid_validity (hdr ctx)) = v"
    and "v \<noteq> 0"
    and "pwrite_full ext (world ctx) (write_fd ctx) (pseudo_message ext (world ctx) v (next_uid ctx - 1)) 0
         = (wr, e, w1)"
    and "wr < 0"
  shows "(ENOSPACE e \<longrightarrow>
            (\<exists>c. mbox_write_pseudo ext ctx = Some (0, c) \<and>
                  Ftruncate (write_fd ctx) 0 \<in> set (trace c) \<and>
                  base_uid_last c = next_uid ctx - 1 \<and> base_uid_last_offset c = 0)) \<and>
         (\<not> ENOSPACE e \<longrightarrow>
            (\<exists>c. mbox_write_pseudo ext ctx = Some (- 1, c) \<and>
                  filter is_write (trace c) =
                    filter is_write (trace ctx) @
                    [Pwrite (write_fd ctx) 0 (pseudo_message ext (world ctx) v (next_uid ctx - 1))]))"
  using assms
  by (auto simp add: mbox_write_pseudo_def log_event_def Let_def split: prod.splits)

theorem mbox_write_pseudo_write_failure_witness:
  "write_fd ex_ctx \<noteq> - 1 \<and> ENOSPACE ENOSPC \<and>
   (\<exists>c. mbox_write_pseudo ex_ext_enospc ex_ctx = Some (0, c) \<and> Ftruncate 3 0 \<in> set (trace c) \<and>
        base_uid_last c = 9 \<and> base_uid_last_offset c = 0)"
proof -
  have fd: "write_fd ex_ctx \<noteq> - 1" "write_fd ex_ctx = 3" "next_uid ex_ctx - 1 = 9"
    by (simp_all add: ex_defs)
  have v: "(if base_uid_validity ex_ctx \<noteq> 0 then base_uid_validity ex_ctx
            else hdr_uid_validity (hdr ex_ctx)) = 7"
    by (simp add: ex_defs)
  have w: "pwrite_full ex_ext_enospc (world ex_ctx) (write_fd ex_ctx)
             (pseudo_message ex_ext_enospc (world ex_ctx) 7 (next_uid ex_ctx - 1)) 0 = (- 1, ENOSPC, 0)"
    by (simp add: ex_ext_enospc_def ex_defs)
  have e: "ENOSPACE ENOSPC" by (simp add: ENOSPACE_def)
  from mbox_write_pseudo_write_failure [OF fd(1) v _ w] e fd show ?thesis
    by simp
qed

subsection \<open>Pending sync records\<close>

text \<open>
  Claim C8. \<open>next_uid\<close> must never decrease. The assignment from an append record is
  \<^verbatim>\<open>next_uid = uid2 + 1\<close> in 32 bits: with \<open>next_uid = 10\<close> and an append record whose
  \<open>uid2\<close> is \<open>0xFFFFFFFF\<close>, \<^verbatim>\<open>mbox_sync_read_index_syncs\<close> returns 0 and leaves
  \<open>next_uid = 0\<close>.
\<close>

theorem mbox_sync_read_index_syncs_next_uid_wraps:
  "next_uid ex_ctx_append = 10 \<and>
   map_option (\<lambda>(r, c, e). (r, next_uid c))
     (mbox_sync_read_index_syncs (ex_ext 7 [] []) ex_ctx_append 1) = Some (0, 0)"
  by (simp add: mbox_sync_read_index_syncs_def mbox_sync_read_index_syncs_loop.simps
      mbox_sync_read_index_syncs_take_def mbox_sync_read_index_syncs_switch_def
      ex_ctx_append_def ex_defs ex_append_rec_def Let_def)









subsection \<open>Growing the file at end of file\<close>

lemma write_pseudo_trace:
  "mbox_write_pseudo ext c = Some (r, c') \<Longrightarrow> trace_grows c c'"
  by (auto simp: mbox_write_pseudo_def Let_def trace_grows_def split: if_splits prod.splits)

lemma shrink_trace:
  assumes "mbox_sync_handle_eof_shrink ext c t = Some (r, c')"
  shows "trace_grows c c'"
proof (cases "0 <s expunged_space c \<and> write_fd c \<noteq> - 1")
  case False
  with assms show ?thesis
    by (auto simp: mbox_sync_handle_eof_shrink_def split: if_splits)
next
  case True
  show ?thesis
    using assms True
    by (auto simp: mbox_sync_handle_eof_shrink_def Let_def trace_grows_def
             split: if_splits prod.splits option.splits dest!: write_pseudo_trace)
qed

lemma grow_trace:
  assumes "need_space_seq c \<noteq> 0"
    and "mbox_sync_handle_eof_grow ext c m fs = Some (r, c')"
  shows "\<exists>rest. trace c' = trace c @
           File_set_size (write_fd c) (fs + (- space_diff c - expunged_space c) + eof_padding ext c) # rest \<and>
           (0 \<le> fst (file_set_size ext (world c) (write_fd c)
                       (fs + (- space_diff c - expunged_space c) + eof_padding ext c)) \<longrightarrow>
            rest = [Rewrite fs ((- space_diff c - expunged_space c) + eof_padding ext c) (eof_padding ext c)
                      (need_space_seq c) (seq c)])"
  using assms
  by (auto simp: mbox_sync_handle_eof_grow_def Let_def eof_padding_def log_event_def keep_trace_def
                 algebra_simps
           split: if_splits prod.splits)


lemma grow_asserts:
  assumes "need_space_seq c \<noteq> 0"
    and "mbox_sync_handle_eof_grow ext c m fs = Some (r, c')"
  shows "space_diff c <s 0 \<and> space_diff c - eof_padding ext c + expunged_space c <s 0"
  using assms
  by (auto simp: mbox_sync_handle_eof_grow_def Let_def eof_padding_def split: if_splits)

lemma uint_minus_negative:
  fixes x :: "64 word"
  assumes "x <s 0"
  shows "uint (- x) = - sint x"
proof -
  from assms have neg: "sint x < 0" by (simp add: word_sless_alt)
  have lo: "- (2 ^ 63) \<le> sint x" using sint_ge [of x] by simp
  have "uint (- x) = uint (word_of_int (- sint x) :: 64 word)"
    by simp
  also have "\<dots> = (- sint x) mod 2 ^ 64"
    by (simp only: uint_word_of_int) simp
  also have "\<dots> = - sint x"
    using neg lo by simp
  finally show ?thesis .
qed

lemma unat_ucast_32_64: "unat (ucast (w :: 32 word) :: 64 word) = unat w"
proof -
  have "uint (ucast w :: 64 word) = uint w"
    by (rule uint_up_ucast) (simp add: is_up_def source_size target_size)
  then have "nat (uint (ucast w :: 64 word)) = nat (uint w)" by (rule arg_cong)
  then show ?thesis by (simp only: unat_eq_nat_uint)
qed

lemma padding_exact:
  fixes p sq nss :: "32 word"
  assumes "unat nss \<le> unat sq" and "unat p * (unat sq - unat nss + 1) < 2 ^ 32"
  shows "unat (ucast (p * (sq - nss + 1)) :: 64 word) = unat p * (unat sq - unat nss + 1)"
proof (cases "p = 0")
  case True
  then show ?thesis by simp
next
  case False
  then have "0 < unat p" by (simp add: unat_gt_0)
  then obtain p' where p': "unat p = Suc p'" by (cases "unat p") simp_all
  have "unat sq - unat nss + 1 \<le> Suc p' * (unat sq - unat nss + 1)" by simp
  then have "unat sq - unat nss + 1 \<le> unat p * (unat sq - unat nss + 1)" by (simp only: p')
  with assms(2) have k: "unat sq - unat nss + 1 < 2 ^ 32" by simp
  have le: "nss \<le> sq" using assms(1) by (simp add: word_le_nat_alt)
  have d: "unat (sq - nss) = unat sq - unat nss" using le by (simp add: unat_sub)
  have "unat (sq - nss) + unat (1 :: 32 word) < 2 ^ LENGTH(32)" using k d by simp
  then have s: "unat (sq - nss + 1) = unat (sq - nss) + unat (1 :: 32 word)"
    by (simp only: unat_add_lem)
  have "unat p * unat (sq - nss + 1) < 2 ^ LENGTH(32)" using assms(2) s d by simp
  then have m: "unat (p * (sq - nss + 1)) = unat p * unat (sq - nss + 1)"
    by (simp only: unat_mult_lem)
  have "unat (ucast (p * (sq - nss + 1)) :: 64 word) = unat (p * (sq - nss + 1))"
    by (rule unat_ucast_32_64)
  also have "\<dots> = unat p * unat (sq - nss + 1)" by (rule m)
  also have "\<dots> = unat p * (unat sq - unat nss + 1)" by (simp only: s d) simp
  finally show ?thesis .
qed


text \<open>
  Claim C3: when the sync reaches end of file with an open window (\<open>need_space_seq \<noteq> 0\<close>),
  the padding added is exactly \<open>MBOX_HEADER_PADDING \<times> (seq - need_space_seq + 1)\<close> bytes, and
  \<^verbatim>\<open>file_set_size\<close> grows the file by exactly the deficit plus that padding. The code
  computes the product in 32-bit unsigned arithmetic before it widens it to \<^verbatim>\<open>uoff_t\<close>.
  Here the window has 67108864 messages and the padding per message is 64 bytes, which
  makes 4294967296 bytes: the padding computed is 0, the file of 1000 bytes is set to
  1072 bytes, the deficit of 72 alone, and the rewriter is called with no padding.
\<close>

theorem mbox_sync_handle_eof_updates_padding_wraps:
  "unat (MBOX_HEADER_PADDING (ex_ext 7 [] [])) *
     (unat (seq ex_ctx_wide_window) - unat (need_space_seq ex_ctx_wide_window) + 1) = 4294967296 \<and>
   eof_padding (ex_ext 7 [] []) ex_ctx_wide_window = 0 \<and>
   map_option (\<lambda>(r, c). (r, trace c))
     (mbox_sync_handle_eof_updates (ex_ext 7 [] []) ex_ctx_wide_window zero_mail_ctx) =
   Some (0, [File_set_size 3 1072, Rewrite 1000 72 0 1 67108864])"
  by (simp add: mbox_sync_handle_eof_updates_def mbox_sync_handle_eof_grow_def
      mbox_sync_handle_eof_shrink_def eof_padding_def ex_ctx_wide_window_def ex_defs zero_mail_ctx_def
      Let_def log_event_def keep_trace_def update_from_offsets_def word_sless_alt word_sle_eq)

text \<open>
  What holds of every run. When \<^verbatim>\<open>mbox_sync_handle_eof_updates\<close> runs at end of file with
  an open window and returns, its first write to the file is \<^verbatim>\<open>file_set_size\<close> to the old
  size plus the deficit (\<open>- space_diff\<close>, less what is left of \<open>expunged_space\<close>) plus the
  padding as the source computes it; where that call succeeds, the rewriter is then called
  on the window with this growth and this padding. Where the 32-bit product does not
  wrap, the padding is \<open>MBOX_HEADER_PADDING \<times> (seq - need_space_seq + 1)\<close> bytes, and where
  the 64-bit sums do not wrap, the new size is the old size plus deficit plus padding as
  numbers of bytes.
\<close>

theorem mbox_sync_handle_eof_updates_grows:
  assumes eof: "istream_raw_mbox_is_eof ext (world ctx)"
    and window: "need_space_seq ctx \<noteq> 0"
    and st: "file_input_stat ext (file_input_sync ext (world ctx)) True = (Some s, w1)"
    and ok: "\<not> st_size s < file_input_v_offset ext w1"
    and ret: "mbox_sync_handle_eof_updates ext ctx mail_ctx = Some (r, ctx')"
  shows "let padding = (ucast (MBOX_HEADER_PADDING ext * (seq ctx - need_space_seq ctx + 1)) :: uoff_t);
             deficit = - space_diff ctx - expunged_space ctx;
             new_size = st_size s + deficit + padding
         in (\<exists>rest. trace ctx' = trace ctx @ File_set_size (write_fd ctx) new_size # rest \<and>
               (0 \<le> fst (file_set_size ext w1 (write_fd ctx) new_size) \<longrightarrow>
                  (\<exists>rest'. rest = Rewrite (st_size s) (deficit + padding) padding
                                     (need_space_seq ctx) (seq ctx) # rest'))) \<and>
            (unat (need_space_seq ctx) \<le> unat (seq ctx) \<and>
             unat (MBOX_HEADER_PADDING ext) * (unat (seq ctx) - unat (need_space_seq ctx) + 1) < 2 ^ 32 \<longrightarrow>
             unat padding =
               unat (MBOX_HEADER_PADDING ext) * (unat (seq ctx) - unat (need_space_seq ctx) + 1)) \<and>
            (sint (space_diff ctx - padding + expunged_space ctx) =
               sint (space_diff ctx) - uint padding + sint (expunged_space ctx) \<and>
             uint (st_size s) + (- sint (space_diff ctx) - sint (expunged_space ctx) + uint padding) < 2 ^ 64 \<longrightarrow>
             uint new_size =
               uint (st_size s) + (- sint (space_diff ctx) - sint (expunged_space ctx)) + uint padding)"
proof -
  let ?c1 = "ctx\<lparr>world := w1\<rparr>"
  let ?p = "eof_padding ext ctx"
  let ?d = "- space_diff ctx - expunged_space ctx"
  let ?n = "st_size s + ?d + ?p"
  from ret eof st ok obtain gr c2 where
    grow: "mbox_sync_handle_eof_grow ext ?c1 mail_ctx (st_size s) = Some (gr, c2)"
    and rest: "gr < 0 \<and> ctx' = c2 \<or> mbox_sync_handle_eof_shrink ext c2 (st_size s - file_input_v_offset ext w1) = Some (r, ctx')"
    by (auto simp: mbox_sync_handle_eof_updates_def Let_def split: if_splits option.splits)
  have pad1: "eof_padding ext ?c1 = ?p" by (simp add: eof_padding_def)
  from grow_trace [OF _ grow] window pad1 obtain rest1 where
    t1: "trace c2 = trace ctx @ File_set_size (write_fd ctx) ?n # rest1"
    and t1': "0 \<le> fst (file_set_size ext w1 (write_fd ctx) ?n) \<longrightarrow>
              rest1 = [Rewrite (st_size s) (?d + ?p) ?p (need_space_seq ctx) (seq ctx)]"
    by auto
  from rest have "trace_grows c2 ctx'"
    by (auto dest: shrink_trace)
  then obtain rest2 where t2: "trace ctx' = trace c2 @ rest2"
    by (auto simp: trace_grows_def)
  have part1: "\<exists>rest. trace ctx' = trace ctx @ File_set_size (write_fd ctx) ?n # rest \<and>
               (0 \<le> fst (file_set_size ext w1 (write_fd ctx) ?n) \<longrightarrow>
                  (\<exists>rest'. rest = Rewrite (st_size s) (?d + ?p) ?p (need_space_seq ctx) (seq ctx) # rest'))"
    using t1 t1' t2 by auto
  define X where "X = space_diff ctx - ?p + expunged_space ctx"
  from grow_asserts [OF _ grow] window pad1
  have neg: "X <s 0" by (auto simp: X_def)
  have n_eq: "?n = st_size s + - X" by (simp add: X_def)
  have part2: "uint ?n = uint (st_size s) + (- sint (space_diff ctx) - sint (expunged_space ctx)) + uint ?p"
    if nw: "sint X = sint (space_diff ctx) - uint ?p + sint (expunged_space ctx)"
      and fit: "uint (st_size s) + (- sint (space_diff ctx) - sint (expunged_space ctx) + uint ?p) < 2 ^ 64"
  proof -
    have u: "uint (- X) = - sint (space_diff ctx) - sint (expunged_space ctx) + uint ?p"
      using uint_minus_negative [OF neg] nw by linarith
    have "uint (st_size s) + uint (- X) < 2 ^ LENGTH(64)"
      using fit u by simp
    then have a: "uint (st_size s + - X) = uint (st_size s) + uint (- X)"
      by (simp only: uint_add_lem)
    have "uint ?n = uint (st_size s + - X)" by (simp only: n_eq)
    also have "\<dots> = uint (st_size s) + uint (- X)" by (rule a)
    finally show ?thesis using u by linarith
  qed
  have part3: "unat ?p = unat (MBOX_HEADER_PADDING ext) * (unat (seq ctx) - unat (need_space_seq ctx) + 1)"
    if "unat (need_space_seq ctx) \<le> unat (seq ctx)"
       "unat (MBOX_HEADER_PADDING ext) * (unat (seq ctx) - unat (need_space_seq ctx) + 1) < 2 ^ 32"
    using padding_exact [OF that] by (simp only: eof_padding_def)
  show ?thesis
    unfolding Let_def eof_padding_def [symmetric] X_def [symmetric]
    using part1 part2 part3 by blast
qed

text \<open>A window of one message: 72 bytes of deficit and 64 bytes of padding.\<close>

theorem mbox_sync_handle_eof_updates_grows_witness:
  "istream_raw_mbox_is_eof (ex_ext 7 [] []) (world ex_ctx_window) \<and>
   need_space_seq ex_ctx_window \<noteq> 0 \<and>
   (\<exists>c. mbox_sync_handle_eof_updates (ex_ext 7 [] []) ex_ctx_window zero_mail_ctx = Some (0, c) \<and>
        (\<exists>rest. trace c = File_set_size 3 1136 # Rewrite 1000 136 64 1 1 # rest))"
proof -
  let ?E = "ex_ext 7 [] []"
  have eof: "istream_raw_mbox_is_eof ?E (world ex_ctx_window)"
    by (simp add: ex_ctx_window_def ex_defs)
  have window: "need_space_seq ex_ctx_window \<noteq> 0"
    by (simp add: ex_ctx_window_def ex_defs)
  have st: "file_input_stat ?E (file_input_sync ?E (world ex_ctx_window)) True = (Some ex_stat, 0)"
    by (simp add: ex_ctx_window_def ex_defs)
  have ok: "\<not> st_size ex_stat < file_input_v_offset ?E 0"
    by (simp add: ex_defs)
  obtain c where run: "mbox_sync_handle_eof_updates ?E ex_ctx_window zero_mail_ctx = Some (0, c)"
    by (simp add: mbox_sync_handle_eof_updates_def mbox_sync_handle_eof_grow_def
        mbox_sync_handle_eof_shrink_def ex_ctx_window_def ex_defs zero_mail_ctx_def Let_def
        log_event_def keep_trace_def update_from_offsets_def word_sless_alt word_sle_eq)
  have tr0: "trace ex_ctx_window = []" "write_fd ex_ctx_window = 3" "seq ex_ctx_window = 1"
    "need_space_seq ex_ctx_window = 1" "space_diff ex_ctx_window = - 72" "expunged_space ex_ctx_window = 0"
    by (simp_all add: ex_ctx_window_def ex_defs)
  have ext0: "MBOX_HEADER_PADDING ?E = 64" "file_set_size ?E 0 3 1136 = (0, 0)"
    by (simp_all add: ex_defs)
  from mbox_sync_handle_eof_updates_grows [OF eof window st ok run]
  have "\<exists>rest. trace c = File_set_size 3 1136 # Rewrite 1000 136 64 1 1 # rest"
    by (auto simp add: Let_def tr0 ext0 ex_stat_def)
  with eof window run show ?thesis by blast
qed

subsection \<open>The sync loop: the UID validity guard\<close>

text \<open>Unfolding sets for running the engine on the small mailbox.\<close>

lemmas ex_mail_defs = ex_msg_def ex_pseudo_mail_def ex_mail3_def ex_broken_mail_def
  zero_mail_ctx_def zero_mail_def

lemmas loop_defs = mbox_sync_loop_def mbox_sync_seek_to_seq_def mbox_sync_loop_while.simps
  mbox_sync_read_next_mail_def mbox_sync_loop_body_def mbox_sync_loop_uid_def mbox_sync_loop_lookup_def
  mbox_sync_read_index_syncs_def mbox_sync_read_index_syncs_loop.simps
  mbox_sync_read_index_syncs_take_def mbox_sync_read_index_syncs_switch_def
  expunge_rest.simps keep_trace_def log_event_def OFF_T_MAX_def Let_def

lemmas handle_defs = mbox_sync_loop_handle_def mbox_sync_handle_header_def
  mbox_sync_handle_header_no_space_def mbox_sync_update_index_def
  mbox_sync_update_index_keywords_def mbox_sync_update_from_offset_def index_do_def
  mbox_sync_read_index_rec_def mbox_sync_read_index_rec_loop.simps

lemmas driver_defs = mbox_sync_def mbox_sync_again.simps mbox_sync_run_def mbox_sync_do_def
  mbox_sync_do_loop.simps mbox_sync_has_changed_def mbox_sync_context_free_def do_lock_def do_unlock_def
  mbox_sync_nothing_to_do_def d_log_def driver_of_def mbox_sync_handle_eof_updates_def
  mbox_sync_handle_eof_grow_def mbox_sync_handle_eof_shrink_def mbox_sync_update_index_header_def
  mbox_rewrite_base_uid_last_def scan_uid_last.simps bytes_of_def printf_010u_def digit_char_def
  mbox_sync_partial_seek_next_def mbox_sync_array_delete_to.simps upt_rec
  mbox_sync_seek_to_uid_def

text \<open>Seeking, expunging the rest of the index and reading a message log nothing.\<close>

lemma seek_to_seq_trace:
  assumes "mbox_sync_seek_to_seq ext c s = (r, c')" and "0 < r"
  shows "trace c' = trace c"
  using assms
  by (auto simp: mbox_sync_seek_to_seq_def Let_def split: if_splits prod.splits)

lemma expunge_rest_trace:
  "expunge_rest n c = Some c' \<Longrightarrow> trace c' = trace c"
proof (erule expunge_rest.raw_induct [where P = "\<lambda>n c c'. trace c' = trace c", rotated])
  fix f n c c'
  assume IH: "\<And>n c c'. f n c = Some c' \<Longrightarrow> trace c' = trace c"
    and step: "(if idx_seq c \<le> n
                then f n ((index_do (Index_expunge (idx_seq c)) c)\<lparr>idx_seq := idx_seq c + 1\<rparr>)
                else Some c) = Some c'"
  show "trace c' = trace c"
  proof (cases "idx_seq c \<le> n")
    case True
    with step have "f n ((index_do (Index_expunge (idx_seq c)) c)\<lparr>idx_seq := idx_seq c + 1\<rparr>) = Some c'"
      by simp
    from IH [OF this] show ?thesis by (simp add: index_do_def)
  next
    case False
    with step show ?thesis by simp
  qed
qed

lemma read_next_mail_trace:
  assumes "mbox_sync_read_next_mail ext c m = Some (r, c', m')"
  shows "trace c' = trace c"
  using assms
  by (auto simp: mbox_sync_read_next_mail_def Let_def split: if_splits prod.splits)

text \<open>
  Claim C2: during a sync pass, if the first message's pseudo header carries a non-zero
  \<open>base_uid_validity\<close>, the index header's \<open>uid_validity\<close> is non-zero too, and the two
  differ, then \<^verbatim>\<open>mbox_sync_loop\<close> reports a critical error, marks the index corrupted and
  returns \<open>- 1\<close>; nothing was logged before the message was read, so the pass made no
  write to the mbox file. The assumptions say that the loop gets as far as its first
  message: the seek succeeds, the index records are expunged where UIDs are renumbered,
  and \<^verbatim>\<open>mbox_sync_read_next_mail\<close> returns the message \<open>m\<close> with sequence number 1.
\<close>

theorem mbox_sync_loop_uid_validity_changed:
  assumes seek: "mbox_sync_seek_to_seq ext ctx0 0 = (r0, c1)" and r0: "0 < r0"
    and renumber: "(if renumber_uids c1
                    then expunge_rest (mail_index_view_get_messages_count ext (world ctx0)) c1
                    else Some c1) = Some c2"
    and rd: "mbox_sync_read_next_mail ext c2 mail_ctx0 = Some (r, c3, m)" and r: "0 < r"
    and first: "mail_seq m = 1"
    and base: "base_uid_validity c3 \<noteq> 0"
    and idx: "hdr_uid_validity (hdr c3) \<noteq> 0"
    and differ: "base_uid_validity c3 \<noteq> hdr_uid_validity (hdr c3)"
  shows "mbox_sync_loop ext ctx0 mail_ctx0 partial0 =
           Some (- 1, log_event Mark_corrupted
                        (log_event (Critical ''UIDVALIDITY changed in mbox file'') c3), m) \<and>
         trace c3 = trace ctx0 \<and>
         filter is_write (trace (log_event Mark_corrupted
                        (log_event (Critical ''UIDVALIDITY changed in mbox file'') c3))) =
           filter is_write (trace ctx0)"
proof -
  let ?n = "mail_index_view_get_messages_count ext (world ctx0)"
  let ?st = "\<lparr>l_ctx = c2, l_mail_ctx = mail_ctx0, l_partial = partial0,
              l_skipped_mails = False, l_uids_broken = False\<rparr>"
  let ?c' = "log_event Mark_corrupted (log_event (Critical ''UIDVALIDITY changed in mbox file'') c3)"
  have body: "mbox_sync_loop_body ext ?n (?st\<lparr>l_ctx := c3, l_mail_ctx := m\<rparr>) =
              Some (Return (- 1) (?st\<lparr>l_ctx := ?c', l_mail_ctx := m\<rparr>))"
    using first base idx differ by (simp add: mbox_sync_loop_body_def Let_def)
  have while: "mbox_sync_loop_while ext ?n ?st = Some (Return (- 1) (?st\<lparr>l_ctx := ?c', l_mail_ctx := m\<rparr>))"
    using rd r body by (subst mbox_sync_loop_while.simps) simp
  have loop: "mbox_sync_loop ext ctx0 mail_ctx0 partial0 = Some (- 1, ?c', m)"
    using seek r0 renumber while
    by (simp add: mbox_sync_loop_def Let_def split: if_splits)
  have t3: "trace c3 = trace ctx0"
  proof -
    have "trace c2 = trace c1"
      using renumber by (auto split: if_splits dest: expunge_rest_trace)
    with seek_to_seq_trace [OF seek r0] read_next_mail_trace [OF rd] show ?thesis by simp
  qed
  from loop t3 show ?thesis by simp
qed

text \<open>
  The theorem at work: the pseudo message of the mailbox carries UID validity 5, the
  index has 7.
\<close>

theorem mbox_sync_loop_uid_validity_changed_witness:
  "\<exists>c m. mbox_sync_loop (ex_ext 5 [ex_pseudo_mail] []) ex_ctx zero_mail_ctx True = Some (- 1, c, m) \<and>
         mail_seq m = 1 \<and>
         trace c = [Critical ''UIDVALIDITY changed in mbox file'', Mark_corrupted]"
proof -
  let ?E = "ex_ext 5 [ex_pseudo_mail] []"
  define c1 where "c1 = snd (mbox_sync_seek_to_seq ?E ex_ctx 0)"
  define c3 where "c3 = fst (snd (the (mbox_sync_read_next_mail ?E c1 zero_mail_ctx)))"
  define m where "m = snd (snd (the (mbox_sync_read_next_mail ?E c1 zero_mail_ctx)))"
  have seek: "mbox_sync_seek_to_seq ?E ex_ctx 0 = (1, c1)"
    by (simp add: c1_def mbox_sync_seek_to_seq_def ex_defs ex_msg_def ex_pseudo_mail_def
        zero_mail_ctx_def zero_mail_def Let_def)
  have c1: "c1 = ex_ctx\<lparr>dest_first_mail := True\<rparr>"
    by (simp add: c1_def mbox_sync_seek_to_seq_def ex_defs ex_msg_def ex_pseudo_mail_def
        zero_mail_ctx_def zero_mail_def Let_def)
  have renumber: "(if renumber_uids c1
                   then expunge_rest (mail_index_view_get_messages_count ?E (world ex_ctx)) c1
                   else Some c1) = Some c1"
    by (simp add: c1 ex_defs)
  have rd: "mbox_sync_read_next_mail ?E c1 zero_mail_ctx = Some (1, c3, m)"
    by (simp add: c3_def m_def c1 mbox_sync_read_next_mail_def ex_defs ex_msg_def ex_pseudo_mail_def
        zero_mail_ctx_def zero_mail_def keep_trace_def OFF_T_MAX_def Let_def)
  have props: "mail_seq m = 1" "base_uid_validity c3 = 5" "hdr_uid_validity (hdr c3) = 7"
    by (simp_all add: c3_def m_def c1 mbox_sync_read_next_mail_def ex_defs ex_msg_def ex_pseudo_mail_def
        zero_mail_ctx_def zero_mail_def keep_trace_def OFF_T_MAX_def Let_def)
  have tr: "trace ex_ctx = []" by (simp add: ex_defs)
  from mbox_sync_loop_uid_validity_changed [OF seek _ renumber rd _ props(1), of True] props tr
  show ?thesis by (simp add: log_event_def)
qed

subsection \<open>The sync loop: broken UIDs in a partial sync\<close>








subsection \<open>A UID that was expunged and is back\<close>

text \<open>
  \<^verbatim>\<open>mbox_sync_read_index_rec\<close>'s loop leaves \<open>idx_next_uid\<close> alone and only adds to the
  trace.
\<close>

lemma read_index_rec_loop_keeps:
  "mbox_sync_read_index_rec_loop ext u n c = Some res \<Longrightarrow>
   idx_next_uid (fst (snd res)) = idx_next_uid c \<and> trace_grows c (fst (snd res))"
proof (erule mbox_sync_read_index_rec_loop.raw_induct
    [where P = "\<lambda>ext u n c res. idx_next_uid (fst (snd res)) = idx_next_uid c \<and> trace_grows c (fst (snd res))",
      rotated])
  fix f and ext :: "'a ext" and u n c res
  assume IH: "\<And>(ext :: 'a ext) u n c res. f ext u n c = Some res \<Longrightarrow>
                idx_next_uid (fst (snd res)) = idx_next_uid c \<and> trace_grows c (fst (snd res))"
    and step: "(if idx_seq c \<le> n then
        (case mail_index_lookup ext (world c) (idx_seq c) of
           (ret, r) \<Rightarrow>
             if ret < 0 then Some (- 1, log_event Index_error c, None)
             else if ret = 0 then None
             else (case r of
                     None \<Rightarrow> None
                   | Some found \<Rightarrow>
                       if u \<le> rec_uid found then Some (1, c, Some found)
                       else f ext u n
                              ((index_do (Index_expunge (idx_seq c)) c)\<lparr>idx_seq := idx_seq c + 1\<rparr>)))
      else Some (1, c, None)) = Some res"
  show "idx_next_uid (fst (snd res)) = idx_next_uid c \<and> trace_grows c (fst (snd res))"
  proof (cases "f ext u n ((index_do (Index_expunge (idx_seq c)) c)\<lparr>idx_seq := idx_seq c + 1\<rparr>) = Some res")
    case True
    from IH [OF this] show ?thesis by (simp add: index_do_def trace_grows_def)
  next
    case False
    with step show ?thesis
      by (auto simp: log_event_def trace_grows_def split: if_splits prod.splits option.splits)
  qed
qed

lemma read_index_rec_loop_idx_next_uid:
  "mbox_sync_read_index_rec_loop ext u n c = Some (r, c1, found) \<Longrightarrow>
   idx_next_uid c1 = idx_next_uid c \<and> trace_grows c c1"
  using read_index_rec_loop_keeps [of ext u n c "(r, c1, found)"] by simp

text \<open>
  Claim C5, as stated: if a message's UID is smaller than \<open>idx_next_uid\<close> and no matching
  index record is found, the engine logs a critical error and the sync returns failure.
  The second half does not hold. Here the mailbox has the pseudo message and a message
  with UID 3, the index is empty and its next UID is 10: the critical error is logged, the
  message gets the new UID 10, the transaction and the index sync are committed, the
  uid-last field of the file is rewritten, and \<^verbatim>\<open>mbox_sync\<close> returns 0.
\<close>

theorem mbox_sync_reappeared_uid_returns_0:
  "map_option (\<lambda>(r, d). (r, d_trace d))
     (mbox_sync (ex_ext 7 [ex_pseudo_mail, ex_mail3] []) ex_driver {MBOX_SYNC_FORCE_SYNC} zero_mail_ctx) =
   Some (0, [Lock F_WRLCK 1, Sync_begin, Transaction_begin,
             Critical ''mbox sync: Expunged message reappeared in mailbox'',
             Try_rewrite 2 0, Transaction_commit, Sync_commit,
             Pwrite 3 100 (bytes_of ''0000000010''),
             Lock F_RDLCK 1, Unlock 1, Unlock 1])"
  by (simp add: driver_defs loop_defs ex_defs ex_mail_defs handle_defs)

text \<open>
  Claim C5, amended: if a message's UID \<open>u\<close> is smaller than \<open>idx_next_uid\<close> and the search
  of the index ends with no record, \<^verbatim>\<open>mbox_sync_read_index_rec\<close> logs a critical error and
  returns 0 with no record, and \<^verbatim>\<open>mbox_sync_loop\<close> does not return failure for it: it
  sets its local \<^verbatim>\<open>uid\<close> to 0 and goes on with the message as one that has no UID. Where
  reading the pending sync records does not fail and the remaining index records are
  expunged, the pass is no longer partial, and either \<open>next_uid\<close> is \<open>0xFFFFFFFF\<close> and the
  loop returns 0 to have the UIDs renumbered, or the message is given the UID \<open>next_uid\<close>,
  marked for rewriting, and handled by the rest of the iteration
  (\<open>mbox_sync_loop_handle\<close>) as a message with no index record.
\<close>

theorem mbox_sync_read_index_rec_reappeared:
  assumes nonzero: "u \<noteq> 0"
    and real: "\<not> pseudo (l_mail_ctx st)"
    and search: "mbox_sync_read_index_rec_loop ext u
                   (mail_index_view_get_messages_count ext (world (l_ctx st))) (l_ctx st) =
                 Some (r, c1, None)"
    and found: "0 \<le> r"
    and small: "u < idx_next_uid (l_ctx st)"
    and syncs: "mbox_sync_read_index_syncs ext
                  (log_event (Critical ''mbox sync: Expunged message reappeared in mailbox'') c1) 0 =
                Some (sr, c3, e)"
    and read: "0 \<le> sr"
    and rest: "expunge_rest n c3 = Some c4"
  shows "mbox_sync_read_index_rec ext (l_ctx st) u =
           Some (0, log_event (Critical ''mbox sync: Expunged message reappeared in mailbox'') c1, None) \<and>
         mbox_sync_loop_lookup ext n (l_ctx st) (l_mail_ctx st) u =
           Some (0, log_event (Critical ''mbox sync: Expunged message reappeared in mailbox'') c1,
                 l_mail_ctx st, 0, None) \<and>
         mbox_sync_loop_uid ext n st u =
           (if next_uid c4 = - 1
            then Some (Return 0
                   (st\<lparr>l_ctx := (log_event (Critical ''Out of UIDs, renumbering them in mbox file'') c4)
                                   \<lparr>renumber_uids := True\<rparr>,
                       l_partial := False\<rparr>))
            else mbox_sync_loop_handle ext
                   (st\<lparr>l_ctx := c4\<lparr>next_uid := next_uid c4 + 1, prev_msg_uid := next_uid c4\<rparr>,
                       l_mail_ctx := (l_mail_ctx st)\<lparr>need_rewrite := True,
                                       mail := (mail (l_mail_ctx st))\<lparr>uid := next_uid c4\<rparr>\<rparr>,
                       l_partial := False\<rparr>)
                   0 None e)"
proof -
  let ?cL = "log_event (Critical ''mbox sync: Expunged message reappeared in mailbox'') c1"
  from read_index_rec_loop_idx_next_uid [OF search] small have "u < idx_next_uid c1" by simp
  with search found have rec: "mbox_sync_read_index_rec ext (l_ctx st) u = Some (0, ?cL, None)"
    by (simp add: mbox_sync_read_index_rec_def)
  with nonzero have lookup: "mbox_sync_loop_lookup ext n (l_ctx st) (l_mail_ctx st) u =
      Some (0, ?cL, l_mail_ctx st, 0, None)"
    by (simp add: mbox_sync_loop_lookup_def)
  have uid: "mbox_sync_loop_uid ext n st u =
           (if next_uid c4 = - 1
            then Some (Return 0
                   (st\<lparr>l_ctx := (log_event (Critical ''Out of UIDs, renumbering them in mbox file'') c4)
                                   \<lparr>renumber_uids := True\<rparr>,
                       l_partial := False\<rparr>))
            else mbox_sync_loop_handle ext
                   (st\<lparr>l_ctx := c4\<lparr>next_uid := next_uid c4 + 1, prev_msg_uid := next_uid c4\<rparr>,
                       l_mail_ctx := (l_mail_ctx st)\<lparr>need_rewrite := True,
                                       mail := (mail (l_mail_ctx st))\<lparr>uid := next_uid c4\<rparr>\<rparr>,
                       l_partial := False\<rparr>)
                   0 None e)"
    using lookup real syncs read rest
    by (cases st) (simp add: mbox_sync_loop_uid_def Let_def)
  from rec lookup uid show ?thesis by simp
qed

text \<open>
  The theorem at work, on UID 3 in a mailbox whose index is empty and has next UID 10: the
  message gets UID 10; and where the mailbox is out of UIDs, the loop returns 0.
\<close>

theorem mbox_sync_read_index_rec_reappeared_witness:
  "mbox_sync_loop_uid (ex_ext 7 [ex_pseudo_mail, ex_mail3] []) 0 ex_st_mail3 3 =
     mbox_sync_loop_handle (ex_ext 7 [ex_pseudo_mail, ex_mail3] [])
       (ex_st_mail3
          \<lparr>l_ctx := (log_event (Critical ''mbox sync: Expunged message reappeared in mailbox'') ex_ctx)
                      \<lparr>next_uid := 11, prev_msg_uid := 10\<rparr>,
           l_mail_ctx := (l_mail_ctx ex_st_mail3)
                      \<lparr>need_rewrite := True, mail := (mail (l_mail_ctx ex_st_mail3))\<lparr>uid := 10\<rparr>\<rparr>,
           l_partial := False\<rparr>)
       0 None False \<and>
   mbox_sync_loop_uid (ex_ext 7 [ex_pseudo_mail, ex_mail3] []) 0 (ex_st_mail3\<lparr>l_ctx := ex_ctx_no_uids\<rparr>) 3 =
     Some (Return 0
       (ex_st_mail3
          \<lparr>l_ctx := (log_event (Critical ''Out of UIDs, renumbering them in mbox file'')
                       (log_event (Critical ''mbox sync: Expunged message reappeared in mailbox'')
                          ex_ctx_no_uids))
                      \<lparr>renumber_uids := True\<rparr>,
           l_partial := False\<rparr>))"
proof -
  let ?E = "ex_ext 7 [ex_pseudo_mail, ex_mail3] []"
  let ?cL = "log_event (Critical ''mbox sync: Expunged message reappeared in mailbox'') ex_ctx"
  let ?cN = "log_event (Critical ''mbox sync: Expunged message reappeared in mailbox'') ex_ctx_no_uids"
  let ?stN = "ex_st_mail3\<lparr>l_ctx := ex_ctx_no_uids\<rparr>"
  have nonzero: "(3 :: uint32) \<noteq> 0" by simp
  have found: "0 \<le> (1 :: int)" by simp
  have read: "0 \<le> (0 :: int)" by simp
  have real: "\<not> pseudo (l_mail_ctx ex_st_mail3)"
    by (simp add: ex_st_mail3_def ex_mail_defs)
  have search: "mbox_sync_read_index_rec_loop ?E 3
                  (mail_index_view_get_messages_count ?E (world (l_ctx ex_st_mail3))) (l_ctx ex_st_mail3) =
                Some (1, ex_ctx, None)"
    by (subst mbox_sync_read_index_rec_loop.simps) (simp add: ex_st_mail3_def ex_defs)
  have small: "3 < idx_next_uid (l_ctx ex_st_mail3)" by (simp add: ex_st_mail3_def ex_defs)
  have syncs: "mbox_sync_read_index_syncs ?E ?cL 0 = Some (0, ?cL, False)"
    by (simp add: loop_defs ex_defs)
  have rest: "expunge_rest 0 ?cL = Some ?cL"
    by (subst expunge_rest.simps) (simp add: loop_defs ex_defs)
  have next_uid: "next_uid ?cL = 10" by (simp add: loop_defs ex_defs)
  have realN: "\<not> pseudo (l_mail_ctx ?stN)"
    by (simp add: ex_st_mail3_def ex_mail_defs)
  have searchN: "mbox_sync_read_index_rec_loop ?E 3
                  (mail_index_view_get_messages_count ?E (world (l_ctx ?stN))) (l_ctx ?stN) =
                Some (1, ex_ctx_no_uids, None)"
    by (subst mbox_sync_read_index_rec_loop.simps) (simp add: ex_st_mail3_def ex_ctx_no_uids_def ex_defs)
  have smallN: "3 < idx_next_uid (l_ctx ?stN)" by (simp add: ex_st_mail3_def ex_ctx_no_uids_def ex_defs)
  have syncsN: "mbox_sync_read_index_syncs ?E ?cN 0 = Some (0, ?cN, False)"
    by (simp add: loop_defs ex_ctx_no_uids_def ex_defs)
  have restN: "expunge_rest 0 ?cN = Some ?cN"
    by (subst expunge_rest.simps) (simp add: loop_defs ex_ctx_no_uids_def ex_defs)
  have next_uidN: "next_uid ?cN = - 1" by (simp add: loop_defs ex_ctx_no_uids_def ex_defs)
  from mbox_sync_read_index_rec_reappeared [OF nonzero real search found small syncs read rest] next_uid
  have first: "mbox_sync_loop_uid ?E 0 ex_st_mail3 3 =
     mbox_sync_loop_handle ?E
       (ex_st_mail3
          \<lparr>l_ctx := ?cL\<lparr>next_uid := 11, prev_msg_uid := 10\<rparr>,
           l_mail_ctx := (l_mail_ctx ex_st_mail3)
                      \<lparr>need_rewrite := True, mail := (mail (l_mail_ctx ex_st_mail3))\<lparr>uid := 10\<rparr>\<rparr>,
           l_partial := False\<rparr>)
       0 None False"
    by simp
  from mbox_sync_read_index_rec_reappeared [OF nonzero realN searchN found smallN syncsN read restN] next_uidN
  have second: "mbox_sync_loop_uid ?E 0 ?stN 3 =
     Some (Return 0
       (ex_st_mail3
          \<lparr>l_ctx := (log_event (Critical ''Out of UIDs, renumbering them in mbox file'') ?cN)
                      \<lparr>renumber_uids := True\<rparr>,
           l_partial := False\<rparr>))"
    by simp
  from first second show ?thesis by (rule conjI)
qed

subsection \<open>The exits of the driver\<close>

text \<open>
  Claim C9: on every exit path of \<^verbatim>\<open>mbox_sync\<close> the lock it took is released (but for a
  read lock that the lock-reading flag asks to keep on success), and on every failing path
  the index transaction is rolled back and \<open>- 1\<close> is returned. The code has a failing path
  that does not roll back. Here the mbox file is unchanged, writes are delayed, and
  \<^verbatim>\<open>mail_index_sync_next\<close> fails at the first sync record: \<^verbatim>\<open>mbox_sync_read_index_syncs\<close>
  returns \<open>- 1\<close> and \<^verbatim>\<open>mbox_sync\<close> returns \<open>- 1\<close> at once, with the transaction it began
  still open and the index sync neither committed nor rolled back.
\<close>

theorem mbox_sync_read_index_syncs_failure_leaks:
  "map_option (\<lambda>(r, d). (r, d_trace d)) (mbox_sync ex_ext_sync_error ex_driver {} zero_mail_ctx) =
     Some (- 1, [Sync_begin, Transaction_begin, Index_error]) \<and>
   transaction_open [Sync_begin, Transaction_begin, Index_error] False"
  by (simp add: ex_ext_sync_error_def driver_defs loop_defs ex_defs ex_mail_defs)

text \<open>
  With the lock-reading flag the read lock is kept on a failing path as well: the file
  cannot be examined, \<^verbatim>\<open>mbox_sync\<close> returns \<open>- 1\<close>, and the read lock it dropped to is
  still held.
\<close>

lemma mbox_sync_failure_keeps_read_lock:
  "map_option (\<lambda>(r, d). (r, d_trace d, held_locks (d_trace d) []))
     (mbox_sync ex_ext_stat_error ex_driver {MBOX_SYNC_LOCK_READING, MBOX_SYNC_FORCE_SYNC} zero_mail_ctx) =
   Some (- 1,
         [Lock F_RDLCK 1, Unlock 1, Lock F_WRLCK 1, Sync_begin, Transaction_begin,
          Syscall_error ''i_stream_stat()'', Transaction_rollback, Sync_rollback,
          Lock F_RDLCK 1, Unlock 1],
         [1])"
  by (simp add: ex_ext_stat_error_def driver_defs loop_defs ex_defs ex_mail_defs)

end
